theory Spec2Isabelle
  imports Main
begin

section \<open>Authentication token lifecycle (apps/authentication/services.py)\<close>

text \<open>
  A shallow embedding of \<^verbatim>\<open>AuthService\<close>: issuing, verifying and refreshing tokens,
  logging out, and the password-reset tokens. The cache and the user table are explicit
  state; the clock and the random token ids are explicit inputs. One operation reads the
  clock once (the instants it reads within one call are taken to be the same instant).
\<close>

subsection \<open>Python helpers\<close>

text \<open>\<^verbatim>\<open>str.split(sep)\<close> for a one-character separator.\<close>

fun split_sep :: "char \<Rightarrow> string \<Rightarrow> string list" where
  "split_sep sep [] = [[]]"
| "split_sep sep (c # cs) =
     (if c = sep then [] # split_sep sep cs
      else (case split_sep sep cs of
              p # ps \<Rightarrow> (c # p) # ps
            | [] \<Rightarrow> [[c]]))"

text \<open>\<^verbatim>\<open>str(n)\<close> for an integer, as the f-strings of the cache keys render it.\<close>

fun str_nat :: "nat \<Rightarrow> string" where
  "str_nat n =
     (if n < 10 then [''0123456789'' ! n]
      else str_nat (n div 10) @ [''0123456789'' ! (n mod 10)])"

declare str_nat.simps [simp del]

definition str_int :: "int \<Rightarrow> string" where
  "str_int i = (if i < 0 then CHR ''-'' # str_nat (nat (- i)) else str_nat (nat i))"

subsection \<open>Clock\<close>

text \<open>
  An instant is a count of microseconds since the epoch (the resolution of
  \<^verbatim>\<open>datetime\<close>), in true UTC. \<^verbatim>\<open>int(x)\<close> on a timestamp truncates towards zero.
  The rounding of the float that \<^verbatim>\<open>timestamp()\<close> returns is not modelled (it is exact
  to the microsecond for present-day instants), nor is the range limit of \<^verbatim>\<open>datetime\<close>.
\<close>

definition py_int_seconds :: "int \<Rightarrow> int" where
  "py_int_seconds us = (if 0 \<le> us then us div 1000000 else - ((- us) div 1000000))"

definition now_seconds :: "int \<Rightarrow> int" where
  "now_seconds now = now div 1000000"

subsection \<open>Settings (config/settings.py)\<close>

text \<open>
  \<^verbatim>\<open>utc_offset\<close> is the UTC offset, in seconds, of the process's local time zone
  (\<^verbatim>\<open>TIME_ZONE = 'Asia/Shanghai'\<close> gives 28800). It matters because
  \<^verbatim>\<open>datetime.utcnow()\<close> is a naive datetime and \<^verbatim>\<open>.timestamp()\<close> reads a naive
  datetime as local time: the value is the true epoch time minus the offset.
\<close>

record settings =
  JWT_SECRET_KEY :: string
  JWT_EXPIRATION_HOURS :: int
  JWT_REFRESH_EXPIRATION_DAYS :: int
  utc_offset :: int

definition settings_py :: settings where
  "settings_py =
     \<lparr>JWT_SECRET_KEY = ''django-insecure-key'', JWT_EXPIRATION_HOURS = 24,
      JWT_REFRESH_EXPIRATION_DAYS = 7, utc_offset = 28800\<rparr>"

text \<open>\<^verbatim>\<open>datetime.utcnow()\<close> as \<^verbatim>\<open>.timestamp()\<close> will read it, in microseconds.\<close>

definition utcnow :: "settings \<Rightarrow> int \<Rightarrow> int" where
  "utcnow cfg now = now - utc_offset cfg * 1000000"

text \<open>\<^verbatim>\<open>timedelta(hours=h)\<close>, \<^verbatim>\<open>timedelta(days=d)\<close>, \<^verbatim>\<open>timedelta(seconds=s)\<close> in microseconds.\<close>

definition timedelta_seconds :: "int \<Rightarrow> int" where
  "timedelta_seconds s = s * 1000000"

definition timedelta_hours :: "int \<Rightarrow> int" where
  "timedelta_hours h = h * 3600 * 1000000"

definition timedelta_days :: "int \<Rightarrow> int" where
  "timedelta_days d = d * 86400 * 1000000"

subsection \<open>Token claims\<close>

text \<open>
  The payload dictionary of a token, with the keys the service reads. A key may be
  absent (\<open>None\<close>); \<^verbatim>\<open>user_id\<close> may also be JSON null.
\<close>

datatype jint = JNull | JInt int

record payload =
  claim_user_id :: "jint option"
  claim_token_type :: "string option"
  claim_exp :: "int option"
  claim_iat :: "int option"
  claim_jti :: "string option"

text \<open>\<^verbatim>\<open>payload.get('user_id')\<close>: an absent key reads as \<^verbatim>\<open>None\<close>.\<close>

definition get_user_id :: "payload \<Rightarrow> jint" where
  "get_user_id p = (case claim_user_id p of None \<Rightarrow> JNull | Some v \<Rightarrow> v)"

text \<open>Python truthiness of the value: \<^verbatim>\<open>None\<close> and \<^verbatim>\<open>0\<close> are false.\<close>

fun truthy :: "jint \<Rightarrow> bool" where
  "truthy JNull = False"
| "truthy (JInt i) = (i \<noteq> 0)"

text \<open>Why an operation failed: one tag for each place the service gives up.\<close>

datatype auth_error =
    Malformed
  | BadSignature
  | Expired
  | InvalidKind
  | NoSubjectId
  | SubjectNotFound
  | StaleToken

subsection \<open>Token codec\<close>

definition expired :: "payload \<Rightarrow> int \<Rightarrow> bool" where
  "expired p now = (case claim_exp p of None \<Rightarrow> False | Some e \<Rightarrow> e \<le> now_seconds now)"

text \<open>
  \<^verbatim>\<open>jwt.encode(payload, key, algorithm)\<close> and \<^verbatim>\<open>jwt.decode(token, key, algorithms)\<close>
  belong to the PyJWT library, which is not part of the repository: the service is
  modelled over any codec, taken as a parameter. \<open>jwt_decode\<close> also takes the instant at
  which it runs.
\<close>

record jwt_codec =
  jwt_encode :: "payload \<Rightarrow> string \<Rightarrow> string"
  jwt_decode :: "string \<Rightarrow> string \<Rightarrow> int \<Rightarrow> auth_error + payload"

text \<open>
  Modelled from the spec: the contract of the token codec (section 4.1), whose code is
  the PyJWT library. Decoding a token that was encoded under the same key gives the
  claims back, unless the current second has reached \<^verbatim>\<open>exp\<close>, which is \<open>Expired\<close>; a
  string that does not split into three dot-separated parts is \<open>Malformed\<close>.
\<close>

definition codec_laws :: "jwt_codec \<Rightarrow> bool" where
  "codec_laws c \<longleftrightarrow>
     (\<forall>p key now. jwt_decode c (jwt_encode c p key) key now =
        (if expired p now then Inl Expired else Inr p)) \<and>
     (\<forall>tok key now. length (split_sep CHR ''.'' tok) \<noteq> 3 \<longrightarrow>
        jwt_decode c tok key now = Inl Malformed)"

subsection \<open>The structure of a token string\<close>

text \<open>
  Modelled from the spec: the token string format of section 6 (three dot-separated
  base64url segments: header, claims, signature), which the decode of section 4.1 checks
  first (\<open>Malformed\<close> if the string does not have the expected structure). The code is
  the PyJWT library. A segment is base64url text (RFC 4648, section 5, without padding,
  as a signed token carries it) when its characters are letters, digits, \<^verbatim>\<open>-\<close> or \<^verbatim>\<open>_\<close>
  and its length is not 1 modulo 4: no sequence of bytes encodes to such a length, and
  Python's \<^verbatim>\<open>base64.urlsafe_b64decode\<close> raises on it.
\<close>

definition base64url_char :: "char \<Rightarrow> bool" where
  "base64url_char ch =
     (let n = (of_char ch :: nat)
      in (65 \<le> n \<and> n \<le> 90) \<or> (97 \<le> n \<and> n \<le> 122) \<or> (48 \<le> n \<and> n \<le> 57)
         \<or> n = 45 \<or> n = 95)"

definition base64url_segment :: "string \<Rightarrow> bool" where
  "base64url_segment seg = (list_all base64url_char seg \<and> length seg mod 4 \<noteq> 1)"

definition token_structure :: "string \<Rightarrow> bool" where
  "token_structure tok =
     (case split_sep CHR ''.'' tok of
        [h, b, sg] \<Rightarrow> base64url_segment h \<and> base64url_segment b \<and> base64url_segment sg
      | _ \<Rightarrow> False)"

text \<open>
  Modelled from the spec: a codec whose decode checks the structure of the string before
  anything else, and then goes on as the codec \<open>c\<close> does (parsing the claims, verifying
  the signature and the expiry).
\<close>

definition strict_codec :: "jwt_codec \<Rightarrow> jwt_codec" where
  "strict_codec c =
     \<lparr>jwt_encode = jwt_encode c,
      jwt_decode = (\<lambda>tok key now.
         if token_structure tok then jwt_decode c tok key now else Inl Malformed)\<rparr>"

subsection \<open>Expiring key-value store (django.core.cache)\<close>

text \<open>
  Modelled from the spec: the key-value expiring store (section 2), whose code is
  Django's cache backend. An entry holds its value and the instant at which it expires;
  a read at or after that instant finds nothing.
\<close>

datatype cache_value = CStr string | CBool bool

type_synonym cache_store = "string \<rightharpoonup> (cache_value \<times> int)"

definition cache_set :: "cache_store \<Rightarrow> int \<Rightarrow> string \<Rightarrow> cache_value \<Rightarrow> int \<Rightarrow> cache_store" where
  "cache_set st now k v timeout = st(k \<mapsto> (v, now + timeout * 1000000))"

definition cache_get :: "cache_store \<Rightarrow> int \<Rightarrow> string \<Rightarrow> cache_value option" where
  "cache_get st now k =
     (case st k of
        None \<Rightarrow> None
      | Some (v, e) \<Rightarrow> (if now < e then Some v else None))"

definition cache_delete :: "cache_store \<Rightarrow> string \<Rightarrow> cache_store" where
  "cache_delete st k = st(k := None)"

text \<open>Truthiness of what \<^verbatim>\<open>cache.get\<close> returned.\<close>

fun cache_truthy :: "cache_value option \<Rightarrow> bool" where
  "cache_truthy None = False"
| "cache_truthy (Some (CStr s)) = (s \<noteq> [])"
| "cache_truthy (Some (CBool b)) = b"

subsection \<open>Users (the rows of apps.users.models.User that the service reads)\<close>

text \<open>
  \<open>pk\<close> is \<^verbatim>\<open>user.id\<close>. \<open>password\<close> stands for the stored credential: the hashing of
  \<^verbatim>\<open>set_password\<close> is not modelled.
\<close>

record user =
  pk :: int
  username :: string
  password :: string
  is_deleted :: bool
  status :: string

text \<open>\<^verbatim>\<open>User.objects.get(id=user_id, is_deleted=False, status='active')\<close>; \<open>None\<close> is
  \<^verbatim>\<open>User.DoesNotExist\<close>.\<close>

definition objects_get_active :: "user list \<Rightarrow> int \<Rightarrow> user option" where
  "objects_get_active db i =
     find (\<lambda>u. pk u = i \<and> is_deleted u = False \<and> status u = ''active'') db"

text \<open>\<^verbatim>\<open>User.objects.get(id=user_id, is_deleted=False)\<close>.\<close>

definition objects_get_undeleted :: "user list \<Rightarrow> int \<Rightarrow> user option" where
  "objects_get_undeleted db i = find (\<lambda>u. pk u = i \<and> is_deleted u = False) db"

text \<open>\<^verbatim>\<open>user.save(update_fields=['password'])\<close>.\<close>

definition save_password :: "user list \<Rightarrow> user \<Rightarrow> user list" where
  "save_password db u =
     map (\<lambda>r. if pk r = pk u then r\<lparr>password := password u\<rparr> else r) db"

record state =
  users :: "user list"
  cache :: cache_store

subsection \<open>Results\<close>

text \<open>
  The dictionary \<^verbatim>\<open>refresh_access_token\<close> returns, and the one \<^verbatim>\<open>generate_tokens\<close>
  returns, which has two keys more.
\<close>

record access_grant =
  access_token :: string
  token_type :: string
  expires_in :: int

record token_pair = access_grant +
  refresh_token :: string
  user_id :: int

text \<open>A Python \<^verbatim>\<open>Optional\<close> result: every failure is \<^verbatim>\<open>None\<close>.\<close>

definition optional :: "auth_error + 'a \<Rightarrow> 'a option" where
  "optional r = (case r of Inl e \<Rightarrow> None | Inr v \<Rightarrow> Some v)"

subsection \<open>AuthService\<close>

definition ACCESS_TOKEN_TYPE :: string where
  "ACCESS_TOKEN_TYPE = ''access''"

definition REFRESH_TOKEN_TYPE :: string where
  "REFRESH_TOKEN_TYPE = ''refresh''"

text \<open>
  \<^verbatim>\<open>_generate_token(user_id, token_type, expires_delta)\<close>. \<open>jti\<close> is what
  \<^verbatim>\<open>secrets.token_urlsafe(16)\<close> returned.
\<close>

definition token_payload :: "settings \<Rightarrow> int \<Rightarrow> string \<Rightarrow> int \<Rightarrow> string \<Rightarrow> int \<Rightarrow> payload" where
  "token_payload cfg now jti uid ttype expires_delta =
     (let now' = utcnow cfg now;
          expire = now' + expires_delta
      in \<lparr>claim_user_id = Some (JInt uid),
          claim_token_type = Some ttype,
          claim_exp = Some (py_int_seconds expire),
          claim_iat = Some (py_int_seconds now'),
          claim_jti = Some jti\<rparr>)"

definition generate_token ::
  "jwt_codec \<Rightarrow> settings \<Rightarrow> int \<Rightarrow> string \<Rightarrow> int \<Rightarrow> string \<Rightarrow> int \<Rightarrow> string" where
  "generate_token c cfg now jti uid ttype expires_delta =
     jwt_encode c (token_payload cfg now jti uid ttype expires_delta) (JWT_SECRET_KEY cfg)"

text \<open>\<^verbatim>\<open>generate_tokens(user)\<close>; \<open>jti_a\<close> and \<open>jti_r\<close> are the two random ids drawn.\<close>

definition generate_tokens ::
  "jwt_codec \<Rightarrow> settings \<Rightarrow> state \<Rightarrow> int \<Rightarrow> string \<Rightarrow> string \<Rightarrow> user \<Rightarrow> token_pair \<times> state" where
  "generate_tokens c cfg s now jti_a jti_r u =
     (let access = generate_token c cfg now jti_a (pk u) ACCESS_TOKEN_TYPE
                     (timedelta_hours (JWT_EXPIRATION_HOURS cfg));
          refresh = generate_token c cfg now jti_r (pk u) REFRESH_TOKEN_TYPE
                     (timedelta_days (JWT_REFRESH_EXPIRATION_DAYS cfg));
          cache_key = ''refresh_token:'' @ str_int (pk u);
          s' = s\<lparr>cache := cache_set (cache s) now cache_key (CStr refresh)
                              (JWT_REFRESH_EXPIRATION_DAYS cfg * 24 * 3600)\<rparr>
      in (\<lparr>access_token = access, token_type = ''Bearer'',
           expires_in = JWT_EXPIRATION_HOURS cfg * 3600,
           refresh_token = refresh, user_id = pk u\<rparr>, s'))"

text \<open>\<^verbatim>\<open>verify_token(token)\<close>, with the reason of each \<^verbatim>\<open>return None\<close>.\<close>

definition verify_token_outcome ::
  "jwt_codec \<Rightarrow> settings \<Rightarrow> state \<Rightarrow> int \<Rightarrow> string \<Rightarrow> auth_error + int" where
  "verify_token_outcome c cfg s now token =
     (case jwt_decode c token (JWT_SECRET_KEY cfg) now of
        Inl e \<Rightarrow> Inl e
      | Inr p \<Rightarrow>
          if claim_token_type p \<noteq> Some ACCESS_TOKEN_TYPE then Inl InvalidKind
          else if \<not> truthy (get_user_id p) then Inl NoSubjectId
          else (case get_user_id p of
                  JNull \<Rightarrow> Inl NoSubjectId
                | JInt i \<Rightarrow>
                    (case objects_get_active (users s) i of
                       None \<Rightarrow> Inl SubjectNotFound
                     | Some u \<Rightarrow> Inr i)))"

definition verify_token :: "jwt_codec \<Rightarrow> settings \<Rightarrow> state \<Rightarrow> int \<Rightarrow> string \<Rightarrow> int option" where
  "verify_token c cfg s now token = optional (verify_token_outcome c cfg s now token)"

text \<open>
  \<^verbatim>\<open>refresh_access_token(refresh_token)\<close>; \<open>jti\<close> is the random id of the new access
  token. The state is returned as the call leaves it.
\<close>

definition refresh_access_token_outcome ::
  "jwt_codec \<Rightarrow> settings \<Rightarrow> state \<Rightarrow> int \<Rightarrow> string \<Rightarrow> string
     \<Rightarrow> (auth_error + access_grant) \<times> state" where
  "refresh_access_token_outcome c cfg s now jti token =
     (case jwt_decode c token (JWT_SECRET_KEY cfg) now of
        Inl e \<Rightarrow> (Inl e, s)
      | Inr p \<Rightarrow>
          if claim_token_type p \<noteq> Some REFRESH_TOKEN_TYPE then (Inl InvalidKind, s)
          else if \<not> truthy (get_user_id p) then (Inl NoSubjectId, s)
          else (case get_user_id p of
                  JNull \<Rightarrow> (Inl NoSubjectId, s)
                | JInt i \<Rightarrow>
                    (case objects_get_active (users s) i of
                       None \<Rightarrow> (Inl SubjectNotFound, s)
                     | Some u \<Rightarrow>
                         (let cache_key = ''refresh_token:'' @ str_int i;
                              cached_token = cache_get (cache s) now cache_key
                          in if \<not> cache_truthy cached_token \<or> cached_token \<noteq> Some (CStr token)
                             then (Inl StaleToken, s)
                             else (Inr \<lparr>access_token =
                                          generate_token c cfg now jti i ACCESS_TOKEN_TYPE
                                            (timedelta_hours (JWT_EXPIRATION_HOURS cfg)),
                                        token_type = ''Bearer'',
                                        expires_in = JWT_EXPIRATION_HOURS cfg * 3600\<rparr>, s)))))"

definition refresh_access_token ::
  "jwt_codec \<Rightarrow> settings \<Rightarrow> state \<Rightarrow> int \<Rightarrow> string \<Rightarrow> string \<Rightarrow> access_grant option \<times> state" where
  "refresh_access_token c cfg s now jti token =
     (case refresh_access_token_outcome c cfg s now jti token of (r, s') \<Rightarrow> (optional r, s'))"

text \<open>
  Modelled from the spec: the store is a service outside the process (section 2;
  \<^verbatim>\<open>RedisCache\<close> in the production settings), so a call to it is either carried out or
  raises. \<open>store_faults\<close> says, for one call of \<^verbatim>\<open>logout_user\<close>, which of its two store
  calls raise: \<^verbatim>\<open>cache.delete\<close> and the \<^verbatim>\<open>cache.set\<close> that writes the blacklist marker.
\<close>

record store_faults =
  delete_raises :: bool
  set_raises :: bool

text \<open>
  \<^verbatim>\<open>logout_user(user_id, refresh_token=None)\<close>. \<^verbatim>\<open>cache.delete\<close> stands in the outer
  \<^verbatim>\<open>try\<close>: when it raises, the outer \<^verbatim>\<open>except Exception\<close> logs and returns \<^verbatim>\<open>False\<close>, and
  nothing has been written. Whatever \<^verbatim>\<open>jwt.decode\<close> or \<^verbatim>\<open>cache.set\<close> raises is swallowed
  by the inner \<^verbatim>\<open>except Exception: pass\<close>, and the function returns \<^verbatim>\<open>True\<close>.
\<close>

definition logout_user ::
  "jwt_codec \<Rightarrow> settings \<Rightarrow> store_faults \<Rightarrow> state \<Rightarrow> int \<Rightarrow> int \<Rightarrow> string option
     \<Rightarrow> bool \<times> state" where
  "logout_user c cfg f s now uid refresh =
     (let cache_key = ''refresh_token:'' @ str_int uid
      in if delete_raises f then (False, s)
         else
          (let s1 = s\<lparr>cache := cache_delete (cache s) cache_key\<rparr>
           in case refresh of
                None \<Rightarrow> (True, s1)
              | Some tok \<Rightarrow>
                  if tok = [] then (True, s1)
                  else (case jwt_decode c tok (JWT_SECRET_KEY cfg) now of
                          Inl e \<Rightarrow> (True, s1)
                        | Inr p \<Rightarrow>
                            (case claim_jti p of
                               None \<Rightarrow> (True, s1)
                             | Some jti \<Rightarrow>
                                 if jti = [] then (True, s1)
                                 else (let blacklist_key = ''blacklist_token:'' @ jti;
                                           expire_time =
                                             (case claim_exp p of None \<Rightarrow> 0 | Some e \<Rightarrow> e)
                                               - py_int_seconds (utcnow cfg now)
                                       in if expire_time > 0
                                          then (if set_raises f then (True, s1)
                                                else (True, s1\<lparr>cache := cache_set (cache s1) now
                                                         blacklist_key (CBool True) expire_time\<rparr>))
                                          else (True, s1))))))"

text \<open>\<^verbatim>\<open>validate_token_format(token)\<close>; the tests also pass \<^verbatim>\<open>None\<close>.\<close>

definition validate_token_format :: "string option \<Rightarrow> bool" where
  "validate_token_format token =
     (case token of
        None \<Rightarrow> False
      | Some t \<Rightarrow>
          if t = [] then False
          else if length (split_sep CHR ''.'' t) \<noteq> 3 then False
          else True)"

text \<open>\<^verbatim>\<open>generate_password_reset_token(user)\<close>.\<close>

definition generate_password_reset_token ::
  "jwt_codec \<Rightarrow> settings \<Rightarrow> state \<Rightarrow> int \<Rightarrow> string \<Rightarrow> user \<Rightarrow> string \<times> state" where
  "generate_password_reset_token c cfg s now jti u =
     (let reset_token = generate_token c cfg now jti (pk u) ''reset'' (timedelta_hours 12);
          cache_key = ''password_reset:'' @ str_int (pk u)
      in (reset_token,
          s\<lparr>cache := cache_set (cache s) now cache_key (CStr reset_token) (12 * 3600)\<rparr>))"

text \<open>\<^verbatim>\<open>verify_password_reset_token(token)\<close>.\<close>

definition verify_password_reset_token_outcome ::
  "jwt_codec \<Rightarrow> settings \<Rightarrow> state \<Rightarrow> int \<Rightarrow> string \<Rightarrow> auth_error + user" where
  "verify_password_reset_token_outcome c cfg s now token =
     (case jwt_decode c token (JWT_SECRET_KEY cfg) now of
        Inl e \<Rightarrow> Inl e
      | Inr p \<Rightarrow>
          if claim_token_type p \<noteq> Some ''reset'' then Inl InvalidKind
          else if \<not> truthy (get_user_id p) then Inl NoSubjectId
          else (case get_user_id p of
                  JNull \<Rightarrow> Inl NoSubjectId
                | JInt i \<Rightarrow>
                    (case objects_get_undeleted (users s) i of
                       None \<Rightarrow> Inl SubjectNotFound
                     | Some u \<Rightarrow> Inr u)))"

definition verify_password_reset_token ::
  "jwt_codec \<Rightarrow> settings \<Rightarrow> state \<Rightarrow> int \<Rightarrow> string \<Rightarrow> user option" where
  "verify_password_reset_token c cfg s now token =
     optional (verify_password_reset_token_outcome c cfg s now token)"

text \<open>\<^verbatim>\<open>reset_user_password(token, new_password)\<close>.\<close>

definition reset_user_password ::
  "jwt_codec \<Rightarrow> settings \<Rightarrow> state \<Rightarrow> int \<Rightarrow> string \<Rightarrow> string \<Rightarrow> bool \<times> state" where
  "reset_user_password c cfg s now token new_password =
     (case verify_password_reset_token c cfg s now token of
        None \<Rightarrow> (False, s)
      | Some u \<Rightarrow>
          (let u' = u\<lparr>password := new_password\<rparr>;
               db' = save_password (users s) u';
               cache_key = ''password_reset:'' @ str_int (pk u')
           in (True, \<lparr>users = db', cache = cache_delete (cache s) cache_key\<rparr>)))"

subsection \<open>Cache keys\<close>

text \<open>The keys \<^verbatim>\<open>logout_user\<close> writes blacklist markers under.\<close>

definition is_blacklist_key :: "string \<Rightarrow> bool" where
  "is_blacklist_key k = (take 16 k = ''blacklist_token:'')"

subsection \<open>An executable codec\<close>

text \<open>
  A small codec that meets \<open>codec_laws\<close>, so that the service can be run on concrete
  inputs. The claims are a list of numbers written in unary; the signature is the key
  written the same way. It stands in for PyJWT where a concrete run is wanted and is
  not a model of HS256.
\<close>

fun un_enc :: "nat list \<Rightarrow> string" where
  "un_enc [] = []"
| "un_enc (n # ns) = replicate n CHR ''a'' @ CHR ''b'' # un_enc ns"

fun un_dec :: "nat \<Rightarrow> string \<Rightarrow> nat list option" where
  "un_dec k [] = (if k = 0 then Some [] else None)"
| "un_dec k (c # cs) =
     (if c = CHR ''a'' then un_dec (Suc k) cs
      else if c = CHR ''b'' then map_option ((#) k) (un_dec 0 cs)
      else None)"

fun enc_int :: "int \<Rightarrow> nat list" where
  "enc_int i = (if i < 0 then [1, nat (- i)] else [0, nat i])"

fun dec_int :: "nat list \<Rightarrow> (int \<times> nat list) option" where
  "dec_int (s # m # r) =
     (if s = 0 then Some (int m, r)
      else if s = 1 \<and> m \<noteq> 0 then Some (- int m, r)
      else None)"
| "dec_int r = None"

fun enc_str :: "string \<Rightarrow> nat list" where
  "enc_str s = length s # map of_char s"

fun dec_str :: "nat list \<Rightarrow> (string \<times> nat list) option" where
  "dec_str [] = None"
| "dec_str (n # r) =
     (if n \<le> length r then Some (map char_of (take n r), drop n r) else None)"

fun enc_opt :: "('a \<Rightarrow> nat list) \<Rightarrow> 'a option \<Rightarrow> nat list" where
  "enc_opt f None = [0]"
| "enc_opt f (Some x) = 1 # f x"

fun dec_opt :: "(nat list \<Rightarrow> ('a \<times> nat list) option) \<Rightarrow> nat list \<Rightarrow> ('a option \<times> nat list) option" where
  "dec_opt d [] = None"
| "dec_opt d (t # r) =
     (if t = 0 then Some (None, r)
      else if t = 1 then (case d r of None \<Rightarrow> None | Some (x, r') \<Rightarrow> Some (Some x, r'))
      else None)"

fun enc_jint :: "jint \<Rightarrow> nat list" where
  "enc_jint JNull = [0]"
| "enc_jint (JInt i) = 1 # enc_int i"

fun dec_jint :: "nat list \<Rightarrow> (jint \<times> nat list) option" where
  "dec_jint [] = None"
| "dec_jint (t # r) =
     (if t = 0 then Some (JNull, r)
      else if t = 1 then (case dec_int r of None \<Rightarrow> None | Some (i, r') \<Rightarrow> Some (JInt i, r'))
      else None)"

definition enc_payload :: "payload \<Rightarrow> nat list" where
  "enc_payload p =
     enc_opt enc_jint (claim_user_id p) @ enc_opt enc_str (claim_token_type p) @
     enc_opt enc_int (claim_exp p) @ enc_opt enc_int (claim_iat p) @
     enc_opt enc_str (claim_jti p)"

definition dec_payload :: "nat list \<Rightarrow> payload option" where
  "dec_payload r0 =
     (case dec_opt dec_jint r0 of None \<Rightarrow> None | Some (u, r1) \<Rightarrow>
      case dec_opt dec_str r1 of None \<Rightarrow> None | Some (t, r2) \<Rightarrow>
      case dec_opt dec_int r2 of None \<Rightarrow> None | Some (e, r3) \<Rightarrow>
      case dec_opt dec_int r3 of None \<Rightarrow> None | Some (i, r4) \<Rightarrow>
      case dec_opt dec_str r4 of None \<Rightarrow> None | Some (j, r5) \<Rightarrow>
        if r5 = [] then
          Some \<lparr>claim_user_id = u, claim_token_type = t, claim_exp = e,
                claim_iat = i, claim_jti = j\<rparr>
        else None)"

definition toy_sign :: "string \<Rightarrow> string" where
  "toy_sign key = un_enc (map of_char key)"

definition toy_encode :: "payload \<Rightarrow> string \<Rightarrow> string" where
  "toy_encode p key = ''hdr'' @ CHR ''.'' # un_enc (enc_payload p) @ CHR ''.'' # toy_sign key"

definition toy_decode :: "string \<Rightarrow> string \<Rightarrow> int \<Rightarrow> auth_error + payload" where
  "toy_decode tok key now =
     (case split_sep CHR ''.'' tok of
        [h, b, sg] \<Rightarrow>
          (case Option.bind (un_dec 0 b) dec_payload of
             None \<Rightarrow> Inl Malformed
           | Some p \<Rightarrow>
               if h \<noteq> ''hdr'' then Inl Malformed
               else if sg \<noteq> toy_sign key then Inl BadSignature
               else if expired p now then Inl Expired
               else Inr p)
      | _ \<Rightarrow> Inl Malformed)"

definition toy_codec :: jwt_codec where
  "toy_codec = \<lparr>jwt_encode = toy_encode, jwt_decode = toy_decode\<rparr>"

subsection \<open>Example data\<close>

definition alice :: user where
  "alice = \<lparr>pk = 1, username = ''alice'', password = ''old'', is_deleted = False,
            status = ''active''\<rparr>"

definition s0 :: state where
  "s0 = \<lparr>users = [alice], cache = Map.empty\<rparr>"

text \<open>An instant in November 2023, in microseconds.\<close>

definition t0 :: int where
  "t0 = 1700000000000000"

text \<open>Claims a token can carry with a signature that verifies: a user id of 0.\<close>

definition payload_uid0 :: payload where
  "payload_uid0 =
     \<lparr>claim_user_id = Some (JInt 0), claim_token_type = Some ''access'',
      claim_exp = None, claim_iat = None, claim_jti = None\<rparr>"

text \<open>Alice logs in at \<open>t0\<close>, and again a minute later.\<close>

definition issued0 :: "token_pair \<times> state" where
  "issued0 = generate_tokens toy_codec settings_py s0 t0 ''a1'' ''r1'' alice"


definition issued1 :: "token_pair \<times> state" where
  "issued1 = generate_tokens toy_codec settings_py (snd issued0) (t0 + 60000000) ''a2'' ''r2'' alice"

text \<open>The state after the first login, with the id of its refresh token blacklisted.\<close>

definition blacklisted0 :: state where
  "blacklisted0 =
     (snd issued0)\<lparr>cache := cache_set (cache (snd issued0)) t0 ''blacklist_token:r1''
                               (CBool True) 3600\<rparr>"

text \<open>Claims without \<^verbatim>\<open>exp\<close>: the codec does not require one.\<close>

definition payload_no_exp :: payload where
  "payload_no_exp =
     \<lparr>claim_user_id = Some (JInt 1), claim_token_type = Some ''refresh'',
      claim_exp = None, claim_iat = None, claim_jti = Some ''x1''\<rparr>"

text \<open>
  The store answers; the store cannot be reached; the store is lost between the delete and
  the write of the blacklist marker.
\<close>

definition store_up :: store_faults where
  "store_up = \<lparr>delete_raises = False, set_raises = False\<rparr>"

definition store_down :: store_faults where
  "store_down = \<lparr>delete_raises = True, set_raises = True\<rparr>"

definition store_lost :: store_faults where
  "store_lost = \<lparr>delete_raises = False, set_raises = True\<rparr>"

text \<open>Claims small enough to write their token out, and settings with an empty key.\<close>

definition payload_small :: payload where
  "payload_small =
     \<lparr>claim_user_id = Some (JInt 1), claim_token_type = None,
      claim_exp = None, claim_iat = None, claim_jti = None\<rparr>"

definition settings_nokey :: settings where
  "settings_nokey = settings_py\<lparr>JWT_SECRET_KEY := []\<rparr>"

text \<open>The settings with the process in UTC.\<close>

definition settings_utc :: settings where
  "settings_utc = settings_py\<lparr>utc_offset := 0\<rparr>"

text \<open>Alice asks for a password reset at \<open>t0\<close>.\<close>

definition reset0 :: "string \<times> state" where
  "reset0 = generate_password_reset_token toy_codec settings_py s0 t0 ''p1'' alice"

text \<open>The repository's settings with \<^verbatim>\<open>JWT_EXPIRATION_HOURS=8\<close> in the environment.\<close>

definition settings_8h :: settings where
  "settings_8h = settings_py\<lparr>JWT_EXPIRATION_HOURS := 8\<rparr>"

section \<open>Properties\<close>

subsection \<open>The executable codec meets the contract\<close>

lemma un_dec_replicate:
  "un_dec k (replicate n CHR ''a'' @ CHR ''b'' # cs) = map_option ((#) (k + n)) (un_dec 0 cs)"
  by (induction n arbitrary: k) auto

lemma un_dec_un_enc: "un_dec 0 (un_enc ns) = Some ns"
  by (induction ns) (auto simp: un_dec_replicate)

lemma un_enc_no_dot: "CHR ''.'' \<notin> set (un_enc ns)"
  by (induction ns) auto

lemma split_sep_no_sep: "sep \<notin> set xs \<Longrightarrow> split_sep sep xs = [xs]"
  by (induction xs) auto

lemma split_sep_append:
  "sep \<notin> set xs \<Longrightarrow> split_sep sep (xs @ sep # ys) = xs # split_sep sep ys"
  by (induction xs) auto

lemma dec_int_enc: "dec_int (enc_int i @ r) = Some (i, r)"
  by auto

lemma dec_str_enc: "dec_str (enc_str s @ r) = Some (s, r)"
  by (simp add: comp_def)

lemma dec_jint_enc: "dec_jint (enc_jint v @ r) = Some (v, r)"
  by (cases v) (simp_all del: enc_int.simps dec_int.simps add: dec_int_enc)

lemma dec_opt_enc:
  assumes "\<And>x r. d (f x @ r) = Some (x, r)"
  shows "dec_opt d (enc_opt f v @ r) = Some (v, r)"
  using assms by (cases v) simp_all

lemma dec_opt_enc_nil:
  assumes "\<And>x r. d (f x @ r) = Some (x, r)"
  shows "dec_opt d (enc_opt f v) = Some (v, [])"
  using dec_opt_enc [OF assms, of v "[]"] by simp

lemma dec_payload_enc: "dec_payload (enc_payload p) = Some p"
  unfolding enc_payload_def dec_payload_def
  by (simp del: enc_int.simps dec_int.simps enc_str.simps dec_str.simps enc_opt.simps dec_opt.simps
      add: dec_opt_enc dec_opt_enc_nil dec_int_enc dec_str_enc dec_jint_enc)

lemma toy_split:
  "split_sep CHR ''.'' (toy_encode p key) = [''hdr'', un_enc (enc_payload p), toy_sign key]"
proof -
  have "split_sep CHR ''.'' (un_enc (enc_payload p) @ CHR ''.'' # toy_sign key)
        = [un_enc (enc_payload p), toy_sign key]"
    by (simp add: split_sep_append split_sep_no_sep un_enc_no_dot toy_sign_def)
  then show ?thesis
    by (simp add: toy_encode_def)
qed

lemma toy_roundtrip:
  "toy_decode (toy_encode p key) key now = (if expired p now then Inl Expired else Inr p)"
  by (simp add: toy_decode_def toy_split un_dec_un_enc dec_payload_enc)

lemma toy_malformed:
  "length (split_sep CHR ''.'' tok) \<noteq> 3 \<Longrightarrow> toy_decode tok key now = Inl Malformed"
  by (auto simp: toy_decode_def split: list.splits)

lemma toy_codec_laws: "codec_laws toy_codec"
  by (simp add: codec_laws_def toy_codec_def toy_roundtrip toy_malformed)

subsection \<open>Consequences of the codec contract\<close>

lemma laws_roundtrip:
  "codec_laws c \<Longrightarrow>
   jwt_decode c (jwt_encode c p key) key now = (if expired p now then Inl Expired else Inr p)"
  by (simp add: codec_laws_def)

lemma laws_malformed:
  "codec_laws c \<Longrightarrow> length (split_sep CHR ''.'' tok) \<noteq> 3 \<Longrightarrow>
   jwt_decode c tok key now = Inl Malformed"
  by (simp add: codec_laws_def)

lemma expired_token_payload:
  "expired (token_payload cfg now jti uid tt d) now' =
     (py_int_seconds (utcnow cfg now + d) \<le> now_seconds now')"
  by (simp add: expired_def token_payload_def Let_def)

lemma decode_generated:
  assumes "codec_laws c"
  shows "jwt_decode c (generate_token c cfg now jti uid tt d) (JWT_SECRET_KEY cfg) now' =
     (if py_int_seconds (utcnow cfg now + d) \<le> now_seconds now' then Inl Expired
      else Inr (token_payload cfg now jti uid tt d))"
  by (simp add: generate_token_def laws_roundtrip [OF assms] expired_token_payload)

lemma now_seconds_whole: "now_seconds (k * 1000000) = k"
  by (simp add: now_seconds_def)

lemma not_expired_before:
  assumes "\<And>a. claim_exp p = Some a \<Longrightarrow> k < a"
  shows "\<not> expired p (k * 1000000)"
  unfolding expired_def now_seconds_whole
  using assms by (cases "claim_exp p") auto

lemma never_expired_early:
  "\<exists>now. \<not> expired p now \<and> \<not> expired q now"
proof -
  define ep where "ep = (case claim_exp p of None \<Rightarrow> 0 | Some a \<Rightarrow> a)"
  define eq where "eq = (case claim_exp q of None \<Rightarrow> 0 | Some a \<Rightarrow> a)"
  define k where "k = min ep eq - 1"
  have "\<not> expired p (k * 1000000)"
    by (rule not_expired_before) (simp add: k_def ep_def)
  moreover have "\<not> expired q (k * 1000000)"
    by (rule not_expired_before) (simp add: k_def eq_def)
  ultimately show ?thesis by blast
qed

lemma encode_inj:
  assumes "codec_laws c" and "jwt_encode c p key = jwt_encode c q key"
  shows "p = q"
proof -
  obtain now where n: "\<not> expired p now" "\<not> expired q now"
    using never_expired_early by blast
  have "(Inr p :: auth_error + payload) = jwt_decode c (jwt_encode c p key) key now"
    using laws_roundtrip [OF assms(1), of p key now] n(1) by simp
  also have "\<dots> = jwt_decode c (jwt_encode c q key) key now"
    by (simp only: assms(2))
  also have "\<dots> = Inr q"
    using laws_roundtrip [OF assms(1), of q key now] n(2) by simp
  finally show ?thesis by simp
qed

lemma encode_nonempty:
  assumes "codec_laws c"
  shows "jwt_encode c p key \<noteq> []"
proof
  assume e: "jwt_encode c p key = []"
  obtain now where n: "\<not> expired p now"
    using never_expired_early by blast
  have "(Inr p :: auth_error + payload) = jwt_decode c (jwt_encode c p key) key now"
    using laws_roundtrip [OF assms, of p key now] n by simp
  also have "\<dots> = jwt_decode c [] key now"
    by (simp only: e)
  also have "\<dots> = Inl Malformed"
    using laws_malformed [OF assms, of "[]" key now] by simp
  finally show False by simp
qed

lemma get_active_member:
  assumes "u \<in> set db" "is_deleted u = False" "status u = ''active''"
  shows "\<exists>u'. objects_get_active db (pk u) = Some u'"
proof (cases "objects_get_active db (pk u)")
  case None
  then show ?thesis using assms by (auto simp: objects_get_active_def find_None_iff)
next
  case (Some a)
  then show ?thesis by simp
qed

lemma get_undeleted_member:
  assumes "u \<in> set db" "is_deleted u = False"
  shows "\<exists>u'. objects_get_undeleted db (pk u) = Some u' \<and> pk u' = pk u \<and> is_deleted u' = False"
proof (cases "objects_get_undeleted db (pk u)")
  case None
  then show ?thesis using assms by (auto simp: objects_get_undeleted_def find_None_iff)
next
  case (Some a)
  then show ?thesis by (auto simp: objects_get_undeleted_def dest: find_Some_iff [THEN iffD1])
qed

subsection \<open>Results, keys and issued tokens\<close>

lemma optional_Inl [simp]: "optional (Inl e) = None"
  by (simp add: optional_def)

lemma optional_Inr [simp]: "optional (Inr v) = Some v"
  by (simp add: optional_def)

lemma refresh_key_not_blacklist [simp]: "\<not> is_blacklist_key (''refresh_token:'' @ x)"
  by (simp add: is_blacklist_key_def)

lemma reset_key_not_blacklist [simp]: "\<not> is_blacklist_key (''password_reset:'' @ x)"
  by (simp add: is_blacklist_key_def)

lemma blacklist_key_is_blacklist [simp]: "is_blacklist_key (''blacklist_token:'' @ x)"
  by (simp add: is_blacklist_key_def)

lemma users_generate_tokens [simp]:
  "users (snd (generate_tokens c cfg s now ja jr u)) = users s"
  by (simp add: generate_tokens_def Let_def)

lemma refresh_token_generate_tokens:
  "refresh_token (fst (generate_tokens c cfg s now ja jr u)) =
     generate_token c cfg now jr (pk u) REFRESH_TOKEN_TYPE
       (timedelta_days (JWT_REFRESH_EXPIRATION_DAYS cfg))"
  by (simp add: generate_tokens_def Let_def)

lemma access_token_generate_tokens:
  "access_token (fst (generate_tokens c cfg s now ja jr u)) =
     generate_token c cfg now ja (pk u) ACCESS_TOKEN_TYPE
       (timedelta_hours (JWT_EXPIRATION_HOURS cfg))"
  by (simp add: generate_tokens_def Let_def)

lemma cache_generate_tokens:
  "cache (snd (generate_tokens c cfg s now ja jr u)) =
     cache_set (cache s) now (''refresh_token:'' @ str_int (pk u))
       (CStr (generate_token c cfg now jr (pk u) REFRESH_TOKEN_TYPE
          (timedelta_days (JWT_REFRESH_EXPIRATION_DAYS cfg))))
       (JWT_REFRESH_EXPIRATION_DAYS cfg * 24 * 3600)"
  by (simp add: generate_tokens_def Let_def)

lemma snd_refresh_outcome [simp]:
  "snd (refresh_access_token_outcome c cfg s now jti token) = s"
  by (simp add: refresh_access_token_outcome_def Let_def
      split: sum.splits jint.splits option.splits)

lemma snd_refresh [simp]: "snd (refresh_access_token c cfg s now jti token) = s"
proof -
  have "snd (refresh_access_token c cfg s now jti token) =
        snd (refresh_access_token_outcome c cfg s now jti token)"
    by (simp add: refresh_access_token_def case_prod_beta)
  then show ?thesis by simp
qed

lemma fst_refresh:
  "fst (refresh_access_token c cfg s now jti token) =
     optional (fst (refresh_access_token_outcome c cfg s now jti token))"
  by (simp add: refresh_access_token_def case_prod_beta)

text \<open>What a successful refresh returns.\<close>

lemma refresh_outcome_Inr:
  assumes "fst (refresh_access_token_outcome c cfg s now jti token) = Inr g"
  shows "\<exists>i. g = \<lparr>access_token = generate_token c cfg now jti i ACCESS_TOKEN_TYPE
                      (timedelta_hours (JWT_EXPIRATION_HOURS cfg)),
                    token_type = ''Bearer'',
                    expires_in = JWT_EXPIRATION_HOURS cfg * 3600\<rparr>"
  using assms
  by (auto simp: refresh_access_token_outcome_def Let_def
      split: sum.splits jint.splits option.splits if_splits)

text \<open>Refreshing with the token that the last issue stored succeeds.\<close>

lemma refresh_after_issue:
  assumes laws: "codec_laws c"
    and u: "u \<in> set (users s)" "is_deleted u = False" "status u = ''active''"
    and nz: "pk u \<noteq> 0"
    and live: "now_seconds now' <
        py_int_seconds (utcnow cfg now + timedelta_days (JWT_REFRESH_EXPIRATION_DAYS cfg))"
    and ttl: "now' < now + JWT_REFRESH_EXPIRATION_DAYS cfg * 24 * 3600 * 1000000"
  shows "fst (refresh_access_token_outcome c cfg (snd (generate_tokens c cfg s now ja jr u)) now' j
           (refresh_token (fst (generate_tokens c cfg s now ja jr u)))) =
         Inr \<lparr>access_token = generate_token c cfg now' j (pk u) ACCESS_TOKEN_TYPE
                      (timedelta_hours (JWT_EXPIRATION_HOURS cfg)),
               token_type = ''Bearer'',
               expires_in = JWT_EXPIRATION_HOURS cfg * 3600\<rparr>"
proof -
  let ?R = "generate_token c cfg now jr (pk u) REFRESH_TOKEN_TYPE
              (timedelta_days (JWT_REFRESH_EXPIRATION_DAYS cfg))"
  let ?s' = "snd (generate_tokens c cfg s now ja jr u)"
  have d: "jwt_decode c ?R (JWT_SECRET_KEY cfg) now' =
           Inr (token_payload cfg now jr (pk u) REFRESH_TOKEN_TYPE
                  (timedelta_days (JWT_REFRESH_EXPIRATION_DAYS cfg)))"
    using decode_generated [OF laws, of cfg now jr "pk u" REFRESH_TOKEN_TYPE
        "timedelta_days (JWT_REFRESH_EXPIRATION_DAYS cfg)" now'] live
    by simp
  obtain u' where g: "objects_get_active (users ?s') (pk u) = Some u'"
    using get_active_member [OF u] by auto
  have ne: "?R \<noteq> []"
    by (simp add: generate_token_def encode_nonempty [OF laws])
  have cg: "cache_get (cache ?s') now' (''refresh_token:'' @ str_int (pk u)) = Some (CStr ?R)"
    using ttl by (simp add: cache_generate_tokens cache_get_def cache_set_def)
  show ?thesis
    unfolding refresh_token_generate_tokens
    using d g ne cg nz
    by (simp add: refresh_access_token_outcome_def Let_def token_payload_def get_user_id_def)
qed

lemma refresh_issued0:
  "fst (refresh_access_token_outcome toy_codec settings_py (snd issued0) t0 ''a2''
          (refresh_token (fst issued0))) =
   Inr \<lparr>access_token = generate_token toy_codec settings_py t0 ''a2'' (pk alice)
                          ACCESS_TOKEN_TYPE (timedelta_hours (JWT_EXPIRATION_HOURS settings_py)),
         token_type = ''Bearer'',
         expires_in = JWT_EXPIRATION_HOURS settings_py * 3600\<rparr>"
  unfolding issued0_def
  by (rule refresh_after_issue [OF toy_codec_laws])
     (simp_all add: s0_def alice_def settings_py_def t0_def now_seconds_def py_int_seconds_def
        utcnow_def timedelta_days_def)

lemma generate_token_inj_jti:
  assumes "codec_laws c"
    and "generate_token c cfg now jti uid tt d = generate_token c cfg now' jti' uid' tt' d'"
  shows "jti = jti'"
proof -
  have "token_payload cfg now jti uid tt d = token_payload cfg now' jti' uid' tt' d'"
    using assms by (auto simp: generate_token_def dest: encode_inj)
  then show ?thesis
    by (simp add: token_payload_def Let_def)
qed

subsection \<open>Blacklist keys\<close>

lemma cache_get_cong:
  "st1 k = st2 k \<Longrightarrow> cache_get st1 now k = cache_get st2 now k"
  by (simp add: cache_get_def)

lemma blacklist_generate_tokens:
  "is_blacklist_key k \<Longrightarrow> cache (snd (generate_tokens c cfg s now ja jr u)) k = cache s k"
  by (auto simp: cache_generate_tokens cache_set_def is_blacklist_key_def)

lemma blacklist_generate_reset:
  "is_blacklist_key k \<Longrightarrow>
   cache (snd (generate_password_reset_token c cfg s now jti u)) k = cache s k"
  by (auto simp: generate_password_reset_token_def Let_def cache_set_def is_blacklist_key_def)

lemma blacklist_reset_password:
  "is_blacklist_key k \<Longrightarrow>
   cache (snd (reset_user_password c cfg s now token pw)) k = cache s k"
  by (auto simp: reset_user_password_def Let_def cache_delete_def is_blacklist_key_def
      split: option.splits)

lemma refresh_outcome_noninterference:
  assumes "users s1 = users s2"
    and "\<forall>k. \<not> is_blacklist_key k \<longrightarrow> cache s1 k = cache s2 k"
  shows "fst (refresh_access_token_outcome c cfg s1 now jti token) =
         fst (refresh_access_token_outcome c cfg s2 now jti token)"
proof -
  have H: "cache_get (cache s1) now k = cache_get (cache s2) now k"
    if "\<not> is_blacklist_key k" for k
    using that assms(2) by (simp add: cache_get_def)
  show ?thesis
    by (auto simp: refresh_access_token_outcome_def Let_def assms(1) H is_blacklist_key_def
        split: sum.splits jint.splits option.splits)
qed

subsection \<open>Whole seconds\<close>

lemma div_bounds:
  fixes y :: int
  shows "y div 1000000 * 1000000 \<le> y \<and> y < (y div 1000000 + 1) * 1000000"
proof -
  define q where "q = y div 1000000"
  define r where "r = y mod 1000000"
  have a: "q * 1000000 + r = y"
    unfolding q_def r_def by (rule div_mult_mod_eq)
  have b: "0 \<le> r" "r < 1000000"
    unfolding r_def by simp_all
  have "q * 1000000 \<le> y \<and> y < (q + 1) * 1000000"
    using a b by (simp add: distrib_right)
  then show ?thesis
    unfolding q_def .
qed

lemma py_int_seconds_nonneg:
  assumes "0 \<le> x"
  shows "py_int_seconds x * 1000000 \<le> x \<and> x < (py_int_seconds x + 1) * 1000000"
proof -
  have c: "py_int_seconds x = x div 1000000"
    using assms by (simp add: py_int_seconds_def)
  show ?thesis
    unfolding c by (rule div_bounds)
qed

lemma py_int_seconds_neg:
  assumes "x < 0"
  shows "(py_int_seconds x - 1) * 1000000 < x \<and> x \<le> py_int_seconds x * 1000000"
proof -
  define q where "q = (- x) div 1000000"
  have c: "py_int_seconds x = - q"
    using assms by (simp add: py_int_seconds_def q_def)
  have "q * 1000000 \<le> - x \<and> - x < (q + 1) * 1000000"
    unfolding q_def by (rule div_bounds)
  then show ?thesis
    unfolding c by (simp add: distrib_right left_diff_distrib)
qed

lemma py_int_seconds_le_now:
  assumes "x \<le> y" and "0 \<le> y"
  shows "py_int_seconds x \<le> now_seconds y"
proof (cases "0 \<le> x")
  case True
  then show ?thesis
    using assms(1) by (simp add: py_int_seconds_def now_seconds_def zdiv_mono1)
next
  case False
  then have "py_int_seconds x \<le> 0"
    by (simp add: py_int_seconds_def)
  moreover have "0 \<le> now_seconds y"
    using assms(2) by (simp add: now_seconds_def)
  ultimately show ?thesis by simp
qed

lemma verify_expired_iff:
  "(verify_token_outcome c cfg s now token = Inl Expired) =
   (jwt_decode c token (JWT_SECRET_KEY cfg) now = Inl Expired)"
  by (simp add: verify_token_outcome_def split: sum.splits jint.splits option.splits)

subsection \<open>Issued tokens that verify\<close>

lemma now_seconds_mono: "a \<le> b \<Longrightarrow> now_seconds a \<le> now_seconds b"
  by (simp add: now_seconds_def zdiv_mono1)

lemma verify_generated_access:
  assumes "codec_laws c"
    and "objects_get_active (users s) i = Some v"
    and "i \<noteq> 0"
    and "now_seconds now' < py_int_seconds (utcnow cfg now + d)"
  shows "verify_token_outcome c cfg s now' (generate_token c cfg now jti i ACCESS_TOKEN_TYPE d)
           = Inr i"
  using assms(2-4)
  by (simp add: verify_token_outcome_def decode_generated [OF assms(1)] token_payload_def
      Let_def get_user_id_def)

lemma verify_generated_reset:
  assumes "codec_laws c"
    and "objects_get_undeleted (users s) i = Some v"
    and "i \<noteq> 0"
    and "now_seconds now' < py_int_seconds (utcnow cfg now + d)"
  shows "verify_password_reset_token_outcome c cfg s now'
           (generate_token c cfg now jti i ''reset'' d) = Inr v"
  using assms(2-4)
  by (simp add: verify_password_reset_token_outcome_def decode_generated [OF assms(1)]
      token_payload_def Let_def get_user_id_def)

lemma get_undeleted_save_password:
  "objects_get_undeleted (save_password db w) i =
     map_option (\<lambda>r. if pk r = pk w then r\<lparr>password := password w\<rparr> else r)
       (objects_get_undeleted db i)"
  by (induction db) (auto simp: objects_get_undeleted_def save_password_def)

lemma get_undeleted_pk:
  "objects_get_undeleted db i = Some v \<Longrightarrow> pk v = i"
  by (auto simp: objects_get_undeleted_def dest: find_Some_iff [THEN iffD1])

lemma reset_with_generated:
  assumes "codec_laws c"
    and "objects_get_undeleted (users s) i = Some v"
    and "i \<noteq> 0"
    and "now_seconds now' < py_int_seconds (utcnow cfg now + d)"
  shows "reset_user_password c cfg s now' (generate_token c cfg now jti i ''reset'' d) pw =
           (True, \<lparr>users = save_password (users s) (v\<lparr>password := pw\<rparr>),
                   cache = cache_delete (cache s) (''password_reset:'' @ str_int i)\<rparr>)"
  using get_undeleted_pk [OF assms(2)]
  by (simp add: reset_user_password_def verify_password_reset_token_def
      verify_generated_reset [OF assms] Let_def)

section \<open>Claims\<close>

text \<open>
  C10. Subject id 0 can never authenticate: every verification operation
  (\<open>verify_token\<close>, \<open>refresh_access_token\<close>, \<open>verify_password_reset_token\<close>) returns
  failure for a token whose \<^verbatim>\<open>user_id\<close> claim is absent, null or the integer 0, even
  when the token decodes (its signature is valid and it is unexpired): the claim is
  tested for truthiness, not for presence.
\<close>

theorem falsy_user_id_never_authenticates:
  assumes "jwt_decode c token (JWT_SECRET_KEY cfg) now = Inr p"
    and "claim_user_id p = None \<or> claim_user_id p = Some JNull \<or> claim_user_id p = Some (JInt 0)"
  shows "verify_token c cfg s now token = None
       \<and> fst (refresh_access_token c cfg s now jti token) = None
       \<and> verify_password_reset_token c cfg s now token = None"
proof -
  have f: "\<not> truthy (get_user_id p)"
    using assms(2) by (auto simp: get_user_id_def)
  show ?thesis
    using assms(1) f
    by (simp add: verify_token_def verify_token_outcome_def refresh_access_token_def
        refresh_access_token_outcome_def verify_password_reset_token_def
        verify_password_reset_token_outcome_def optional_def)
qed


theorem falsy_user_id_never_authenticates_witness:
  "verify_token toy_codec settings_py s0 t0
     (jwt_encode toy_codec payload_uid0 (JWT_SECRET_KEY settings_py)) = None
   \<and> fst (refresh_access_token toy_codec settings_py s0 t0 ''j''
        (jwt_encode toy_codec payload_uid0 (JWT_SECRET_KEY settings_py))) = None
   \<and> verify_password_reset_token toy_codec settings_py s0 t0
        (jwt_encode toy_codec payload_uid0 (JWT_SECRET_KEY settings_py)) = None"
proof -
  have d: "jwt_decode toy_codec (jwt_encode toy_codec payload_uid0 (JWT_SECRET_KEY settings_py))
             (JWT_SECRET_KEY settings_py) t0 = Inr payload_uid0"
    using laws_roundtrip [OF toy_codec_laws, of payload_uid0 "JWT_SECRET_KEY settings_py" t0]
    by (simp add: expired_def payload_uid0_def)
  have u: "claim_user_id payload_uid0 = None \<or> claim_user_id payload_uid0 = Some JNull
           \<or> claim_user_id payload_uid0 = Some (JInt 0)"
    by (simp add: payload_uid0_def)
  show ?thesis
    using falsy_user_id_never_authenticates [OF d u, of s0 "''j''"] by simp
qed

text \<open>
  C8. Refresh does not rotate the refresh token: \<open>refresh_access_token\<close> performs no
  store write (the state after the call is the state before it, the record
  \<^verbatim>\<open>refresh_token:{user_id}\<close> included), and what a successful call returns is a newly
  minted access token, the token type and the lifetime, and nothing else.
\<close>

theorem refresh_writes_nothing:
  "snd (refresh_access_token c cfg s now jti token) = s
   \<and> (\<forall>g. fst (refresh_access_token c cfg s now jti token) = Some g \<longrightarrow>
        (\<exists>i. g = \<lparr>access_token = generate_token c cfg now jti i ACCESS_TOKEN_TYPE
                        (timedelta_hours (JWT_EXPIRATION_HOURS cfg)),
                     token_type = ''Bearer'',
                     expires_in = JWT_EXPIRATION_HOURS cfg * 3600\<rparr>))"
proof -
  have "\<exists>i. g = \<lparr>access_token = generate_token c cfg now jti i ACCESS_TOKEN_TYPE
                        (timedelta_hours (JWT_EXPIRATION_HOURS cfg)),
                     token_type = ''Bearer'',
                     expires_in = JWT_EXPIRATION_HOURS cfg * 3600\<rparr>"
    if "fst (refresh_access_token c cfg s now jti token) = Some g" for g
  proof -
    from that have "fst (refresh_access_token_outcome c cfg s now jti token) = Inr g"
      by (cases "fst (refresh_access_token_outcome c cfg s now jti token)")
         (simp_all add: fst_refresh)
    then show ?thesis by (rule refresh_outcome_Inr)
  qed
  then show ?thesis by simp
qed


theorem refresh_writes_nothing_witness:
  "snd (refresh_access_token toy_codec settings_py (snd issued0) t0 ''a2''
          (refresh_token (fst issued0))) = snd issued0
   \<and> (\<exists>g i. fst (refresh_access_token toy_codec settings_py (snd issued0) t0 ''a2''
                 (refresh_token (fst issued0))) = Some g
            \<and> g = \<lparr>access_token = generate_token toy_codec settings_py t0 ''a2'' i
                                     ACCESS_TOKEN_TYPE
                                     (timedelta_hours (JWT_EXPIRATION_HOURS settings_py)),
                     token_type = ''Bearer'',
                     expires_in = JWT_EXPIRATION_HOURS settings_py * 3600\<rparr>)"
  using refresh_writes_nothing [of toy_codec settings_py "snd issued0" t0 "''a2''"
      "refresh_token (fst issued0)"]
    refresh_issued0
  by (simp add: fst_refresh)

text \<open>
  C2. Only the most recently issued refresh token is honoured: when an active subject is
  issued tokens twice, a refresh with the first refresh token fails with \<open>StaleToken\<close>
  (the slot \<^verbatim>\<open>refresh_token:{user_id}\<close> now holds the second one), and a refresh with
  the second succeeds. The two tokens carry different random ids, the refresh happens
  before the \<^verbatim>\<open>exp\<close> written in either and before the stored record times out, and
  the subject's id is a primary key assigned by the database (not 0).
\<close>

theorem only_latest_refresh_token_is_honoured:
  assumes laws: "codec_laws c"
    and u: "u \<in> set (users s)" "is_deleted u = False" "status u = ''active''"
    and nz: "pk u \<noteq> 0"
    and jti: "jr1 \<noteq> jr2"
    and i1: "generate_tokens c cfg s t1 ja1 jr1 u = (g1, s1)"
    and i2: "generate_tokens c cfg s1 t2 ja2 jr2 u = (g2, s2)"
    and live1: "now_seconds t3 <
        py_int_seconds (utcnow cfg t1 + timedelta_days (JWT_REFRESH_EXPIRATION_DAYS cfg))"
    and live2: "now_seconds t3 <
        py_int_seconds (utcnow cfg t2 + timedelta_days (JWT_REFRESH_EXPIRATION_DAYS cfg))"
    and ttl: "t3 < t2 + JWT_REFRESH_EXPIRATION_DAYS cfg * 24 * 3600 * 1000000"
  shows "fst (refresh_access_token_outcome c cfg s2 t3 j (refresh_token g1)) = Inl StaleToken
       \<and> fst (refresh_access_token c cfg s2 t3 j (refresh_token g1)) = None
       \<and> (\<exists>g. fst (refresh_access_token_outcome c cfg s2 t3 j (refresh_token g2)) = Inr g)
       \<and> (\<exists>g. fst (refresh_access_token c cfg s2 t3 j (refresh_token g2)) = Some g)"
proof -
  let ?D = "timedelta_days (JWT_REFRESH_EXPIRATION_DAYS cfg)"
  let ?R1 = "generate_token c cfg t1 jr1 (pk u) REFRESH_TOKEN_TYPE ?D"
  let ?R2 = "generate_token c cfg t2 jr2 (pk u) REFRESH_TOKEN_TYPE ?D"
  let ?key = "''refresh_token:'' @ str_int (pk u)"
  have g1: "refresh_token g1 = ?R1"
    using i1 refresh_token_generate_tokens [of c cfg s t1 ja1 jr1 u] by simp
  have s1: "users s1 = users s"
    using i1 users_generate_tokens [of c cfg s t1 ja1 jr1 u] by simp
  have g2: "g2 = fst (generate_tokens c cfg s1 t2 ja2 jr2 u)"
    and s2: "s2 = snd (generate_tokens c cfg s1 t2 ja2 jr2 u)"
    using i2 by simp_all
  have r2: "refresh_token g2 = ?R2"
    unfolding g2 by (rule refresh_token_generate_tokens)
  have us2: "users s2 = users s"
    unfolding s2 using s1 by simp
  have ne: "?R1 \<noteq> ?R2"
    using generate_token_inj_jti [OF laws] jti by blast
  have d1: "jwt_decode c ?R1 (JWT_SECRET_KEY cfg) t3 =
            Inr (token_payload cfg t1 jr1 (pk u) REFRESH_TOKEN_TYPE ?D)"
    using decode_generated [OF laws, of cfg t1 jr1 "pk u" REFRESH_TOKEN_TYPE ?D t3] live1
    by simp
  obtain u' where ga: "objects_get_active (users s2) (pk u) = Some u'"
    using get_active_member [OF u] us2 by auto
  have cg: "cache_get (cache s2) t3 ?key = Some (CStr ?R2)"
    unfolding s2 using ttl by (simp add: cache_generate_tokens cache_get_def cache_set_def)
  have stale: "fst (refresh_access_token_outcome c cfg s2 t3 j (refresh_token g1)) = Inl StaleToken"
    unfolding g1 using d1 ga cg ne nz
    by (simp add: refresh_access_token_outcome_def Let_def token_payload_def get_user_id_def)
  have u1: "u \<in> set (users s1)"
    using u(1) s1 by simp
  have ok: "fst (refresh_access_token_outcome c cfg s2 t3 j (refresh_token g2)) =
            Inr \<lparr>access_token = generate_token c cfg t3 j (pk u) ACCESS_TOKEN_TYPE
                      (timedelta_hours (JWT_EXPIRATION_HOURS cfg)),
                  token_type = ''Bearer'',
                  expires_in = JWT_EXPIRATION_HOURS cfg * 3600\<rparr>"
    unfolding g2 s2
    by (rule refresh_after_issue [OF laws u1 u(2) u(3) nz live2 ttl])
  show ?thesis
    using stale ok by (simp add: fst_refresh)
qed

theorem only_latest_refresh_token_is_honoured_witness:
  "fst (refresh_access_token_outcome toy_codec settings_py (snd issued1) (t0 + 120000000) ''a3''
          (refresh_token (fst issued0))) = Inl StaleToken
   \<and> fst (refresh_access_token toy_codec settings_py (snd issued1) (t0 + 120000000) ''a3''
          (refresh_token (fst issued0))) = None
   \<and> (\<exists>g. fst (refresh_access_token_outcome toy_codec settings_py (snd issued1) (t0 + 120000000)
               ''a3'' (refresh_token (fst issued1))) = Inr g)
   \<and> (\<exists>g. fst (refresh_access_token toy_codec settings_py (snd issued1) (t0 + 120000000)
               ''a3'' (refresh_token (fst issued1))) = Some g)"
proof -
  have i1: "generate_tokens toy_codec settings_py s0 t0 ''a1'' ''r1'' alice
            = (fst issued0, snd issued0)"
    by (simp add: issued0_def)
  have i2: "generate_tokens toy_codec settings_py (snd issued0) (t0 + 60000000) ''a2'' ''r2'' alice
            = (fst issued1, snd issued1)"
    by (simp add: issued1_def)
  show ?thesis
    by (rule only_latest_refresh_token_is_honoured
          [OF toy_codec_laws _ _ _ _ _ i1 i2])
       (simp_all add: s0_def alice_def settings_py_def t0_def now_seconds_def
          py_int_seconds_def utcnow_def timedelta_days_def)
qed

text \<open>
  C9. Decoding is total on malformed input. With a codec that checks the structure of
  the string first, a string that does not split into three dot-separated parts, or that
  has a part which is not base64url text (the claims part \<^verbatim>\<open>a\<close> of \<^verbatim>\<open>"not.a.token"\<close>, whose
  length no encoding has), fails to decode with \<open>Malformed\<close>, whatever the rest of the
  codec does; every verification then fails with \<open>Malformed\<close>, returned as \<^verbatim>\<open>None\<close>, and
  nothing is raised. \<open>validate_token_format\<close> accepts a string exactly when it splits into
  three parts.
\<close>

theorem malformed_token_never_verifies:
  "(length (split_sep CHR ''.'' token) \<noteq> 3 \<or>
    (\<exists>h b sg. split_sep CHR ''.'' token = [h, b, sg] \<and>
        \<not> (base64url_segment h \<and> base64url_segment b \<and> base64url_segment sg)) \<longrightarrow>
       jwt_decode (strict_codec c) token (JWT_SECRET_KEY cfg) now = Inl Malformed
     \<and> verify_token_outcome (strict_codec c) cfg s now token = Inl Malformed
     \<and> verify_token (strict_codec c) cfg s now token = None
     \<and> fst (refresh_access_token_outcome (strict_codec c) cfg s now jti token) = Inl Malformed
     \<and> fst (refresh_access_token (strict_codec c) cfg s now jti token) = None
     \<and> verify_password_reset_token_outcome (strict_codec c) cfg s now token = Inl Malformed
     \<and> verify_password_reset_token (strict_codec c) cfg s now token = None)
   \<and> validate_token_format (Some token) = (length (split_sep CHR ''.'' token) = 3)
   \<and> validate_token_format None = False"
proof -
  have m: "jwt_decode (strict_codec c) token (JWT_SECRET_KEY cfg) now = Inl Malformed"
    if "length (split_sep CHR ''.'' token) \<noteq> 3 \<or>
        (\<exists>h b sg. split_sep CHR ''.'' token = [h, b, sg] \<and>
            \<not> (base64url_segment h \<and> base64url_segment b \<and> base64url_segment sg))"
  proof -
    have "\<not> token_structure token"
      using that by (auto simp: token_structure_def split: list.splits)
    then show ?thesis
      by (simp add: strict_codec_def)
  qed
  have v: "validate_token_format (Some token) = (length (split_sep CHR ''.'' token) = 3)"
    by (cases token) (simp_all add: validate_token_format_def)
  have n: "validate_token_format None = False"
    by (simp add: validate_token_format_def)
  show ?thesis
    using m v n
    by (auto simp: verify_token_def verify_token_outcome_def fst_refresh
        refresh_access_token_outcome_def verify_password_reset_token_def
        verify_password_reset_token_outcome_def)
qed

theorem malformed_token_never_verifies_witness:
  "validate_token_format (Some ''not.a.token'')
   \<and> jwt_decode (strict_codec toy_codec) ''not.a.token'' (JWT_SECRET_KEY settings_py) t0
       = Inl Malformed
   \<and> verify_token_outcome (strict_codec toy_codec) settings_py s0 t0 ''not.a.token'' = Inl Malformed
   \<and> verify_token (strict_codec toy_codec) settings_py s0 t0 ''not.a.token'' = None
   \<and> fst (refresh_access_token (strict_codec toy_codec) settings_py s0 t0 ''j'' ''not.a.token'') = None
   \<and> verify_password_reset_token (strict_codec toy_codec) settings_py s0 t0 ''not.a.token'' = None
   \<and> verify_token_outcome (strict_codec toy_codec) settings_py s0 t0 ''invalid.token'' = Inl Malformed
   \<and> verify_token (strict_codec toy_codec) settings_py s0 t0 [] = None
   \<and> validate_token_format (Some ''header.payload.signature'')
   \<and> validate_token_format (Some ''header.payload'') = False
   \<and> validate_token_format (Some ''header.payload.signature.extra'') = False
   \<and> validate_token_format (Some []) = False
   \<and> jwt_encode (strict_codec toy_codec) payload_small (JWT_SECRET_KEY settings_nokey)
       = ''hdr.ababbabbbbb.''
   \<and> jwt_decode (strict_codec toy_codec) ''hdr.ababbabbbbb.'' (JWT_SECRET_KEY settings_nokey) t0
       = Inr payload_small"
proof -
  have e: "\<exists>h b sg. split_sep CHR ''.'' ''not.a.token'' = [h, b, sg] \<and>
        \<not> (base64url_segment h \<and> base64url_segment b \<and> base64url_segment sg)"
    by (simp add: base64url_segment_def)
  have l2: "length (split_sep CHR ''.'' ''invalid.token'') \<noteq> 3"
    by simp
  have l1: "length (split_sep CHR ''.'' []) \<noteq> 3"
    by simp
  note N = malformed_token_never_verifies [of "''not.a.token''" toy_codec settings_py t0 s0 "''j''"]
  note N1 = N [THEN conjunct1, THEN mp, OF disjI2, OF e]
  note I = malformed_token_never_verifies [of "''invalid.token''" toy_codec settings_py t0 s0 "''j''"]
  note I1 = I [THEN conjunct1, THEN mp, OF disjI1, OF l2]
  note E = malformed_token_never_verifies [of "[]" toy_codec settings_py t0 s0 "''j''"]
  note E1 = E [THEN conjunct1, THEN mp, OF disjI1, OF l1]
  have w1: "validate_token_format (Some ''not.a.token'')"
    using N [THEN conjunct2, THEN conjunct1] by simp
  have w2: "validate_token_format (Some ''header.payload.signature'')"
    using malformed_token_never_verifies [of "''header.payload.signature''" toy_codec settings_py
        t0 s0 "''j''", THEN conjunct2, THEN conjunct1] by simp
  have w3: "validate_token_format (Some ''header.payload'') = False"
    using malformed_token_never_verifies [of "''header.payload''" toy_codec settings_py
        t0 s0 "''j''", THEN conjunct2, THEN conjunct1] by simp
  have w4: "validate_token_format (Some ''header.payload.signature.extra'') = False"
    using malformed_token_never_verifies [of "''header.payload.signature.extra''" toy_codec
        settings_py t0 s0 "''j''", THEN conjunct2, THEN conjunct1] by simp
  have w5: "validate_token_format (Some []) = False"
    using E [THEN conjunct2, THEN conjunct1] by simp
  have w6: "jwt_encode (strict_codec toy_codec) payload_small (JWT_SECRET_KEY settings_nokey)
              = ''hdr.ababbabbbbb.''"
    by (simp add: strict_codec_def toy_codec_def toy_encode_def toy_sign_def enc_payload_def
        payload_small_def settings_nokey_def numeral_2_eq_2)
  have w7: "jwt_decode (strict_codec toy_codec) ''hdr.ababbabbbbb.''
              (JWT_SECRET_KEY settings_nokey) t0 = Inr payload_small"
    by (simp add: strict_codec_def token_structure_def base64url_segment_def base64url_char_def
        toy_codec_def toy_decode_def toy_sign_def dec_payload_def expired_def
        payload_small_def settings_nokey_def)
  show ?thesis
    by (intro conjI w1 w2 w3 w4 w5 w6 w7 N1 [THEN conjunct1]
        N1 [THEN conjunct2, THEN conjunct1]
        N1 [THEN conjunct2, THEN conjunct2, THEN conjunct1]
        N1 [THEN conjunct2, THEN conjunct2, THEN conjunct2, THEN conjunct2, THEN conjunct1]
        N1 [THEN conjunct2, THEN conjunct2, THEN conjunct2, THEN conjunct2, THEN conjunct2,
            THEN conjunct2]
        I1 [THEN conjunct2, THEN conjunct1]
        E1 [THEN conjunct2, THEN conjunct2, THEN conjunct1])
qed

text \<open>
  C4. The token kind is checked on every verification: a token that decodes (valid
  signature, unexpired) with a kind other than \<^verbatim>\<open>access\<close> fails \<open>verify_token\<close> with
  \<open>InvalidKind\<close>, and one with a kind other than \<^verbatim>\<open>refresh\<close> fails
  \<open>refresh_access_token\<close> with \<open>InvalidKind\<close>. In particular the refresh token issued to
  any subject fails \<open>verify_token\<close>, and the access token fails \<open>refresh_access_token\<close>.
\<close>

theorem token_kind_is_checked:
  assumes "codec_laws c"
  shows "(\<forall>p. jwt_decode c token (JWT_SECRET_KEY cfg) now = Inr p
              \<and> claim_token_type p \<noteq> Some ACCESS_TOKEN_TYPE \<longrightarrow>
            verify_token_outcome c cfg s now token = Inl InvalidKind
            \<and> verify_token c cfg s now token = None)
       \<and> (\<forall>p. jwt_decode c token (JWT_SECRET_KEY cfg) now = Inr p
              \<and> claim_token_type p \<noteq> Some REFRESH_TOKEN_TYPE \<longrightarrow>
            fst (refresh_access_token_outcome c cfg s now jti token) = Inl InvalidKind
            \<and> fst (refresh_access_token c cfg s now jti token) = None)
       \<and> (now_seconds now <
            py_int_seconds (utcnow cfg t + timedelta_days (JWT_REFRESH_EXPIRATION_DAYS cfg)) \<longrightarrow>
          verify_token_outcome c cfg s now
            (refresh_token (fst (generate_tokens c cfg s' t ja jr u))) = Inl InvalidKind)
       \<and> (now_seconds now <
            py_int_seconds (utcnow cfg t + timedelta_hours (JWT_EXPIRATION_HOURS cfg)) \<longrightarrow>
          fst (refresh_access_token_outcome c cfg s now jti
            (access_token (fst (generate_tokens c cfg s' t ja jr u)))) = Inl InvalidKind)"
proof -
  have a: "verify_token_outcome c cfg s now token = Inl InvalidKind
           \<and> verify_token c cfg s now token = None"
    if "jwt_decode c token (JWT_SECRET_KEY cfg) now = Inr p"
      "claim_token_type p \<noteq> Some ACCESS_TOKEN_TYPE" for p
    using that by (simp add: verify_token_def verify_token_outcome_def)
  have b: "fst (refresh_access_token_outcome c cfg s now jti token) = Inl InvalidKind
           \<and> fst (refresh_access_token c cfg s now jti token) = None"
    if "jwt_decode c token (JWT_SECRET_KEY cfg) now = Inr p"
      "claim_token_type p \<noteq> Some REFRESH_TOKEN_TYPE" for p
    using that by (simp add: fst_refresh refresh_access_token_outcome_def)
  have r: "verify_token_outcome c cfg s now
            (refresh_token (fst (generate_tokens c cfg s' t ja jr u))) = Inl InvalidKind"
    if "now_seconds now <
          py_int_seconds (utcnow cfg t + timedelta_days (JWT_REFRESH_EXPIRATION_DAYS cfg))"
    unfolding refresh_token_generate_tokens
    using that decode_generated [OF assms, of cfg t jr "pk u" REFRESH_TOKEN_TYPE
        "timedelta_days (JWT_REFRESH_EXPIRATION_DAYS cfg)" now]
    by (simp add: verify_token_outcome_def token_payload_def Let_def
        ACCESS_TOKEN_TYPE_def REFRESH_TOKEN_TYPE_def)
  have x: "fst (refresh_access_token_outcome c cfg s now jti
            (access_token (fst (generate_tokens c cfg s' t ja jr u)))) = Inl InvalidKind"
    if "now_seconds now <
          py_int_seconds (utcnow cfg t + timedelta_hours (JWT_EXPIRATION_HOURS cfg))"
    unfolding access_token_generate_tokens
    using that decode_generated [OF assms, of cfg t ja "pk u" ACCESS_TOKEN_TYPE
        "timedelta_hours (JWT_EXPIRATION_HOURS cfg)" now]
    by (simp add: refresh_access_token_outcome_def token_payload_def Let_def
        ACCESS_TOKEN_TYPE_def REFRESH_TOKEN_TYPE_def)
  show ?thesis
    using a b r x by blast
qed

theorem token_kind_is_checked_witness:
  "verify_token_outcome toy_codec settings_py (snd issued0) t0 (refresh_token (fst issued0))
     = Inl InvalidKind
   \<and> fst (refresh_access_token_outcome toy_codec settings_py (snd issued0) t0 ''a2''
            (access_token (fst issued0))) = Inl InvalidKind"
proof -
  have h1: "now_seconds t0 < py_int_seconds
              (utcnow settings_py t0 + timedelta_days (JWT_REFRESH_EXPIRATION_DAYS settings_py))"
    by (simp add: settings_py_def t0_def now_seconds_def py_int_seconds_def utcnow_def
        timedelta_days_def)
  have h2: "now_seconds t0 < py_int_seconds
              (utcnow settings_py t0 + timedelta_hours (JWT_EXPIRATION_HOURS settings_py))"
    by (simp add: settings_py_def t0_def now_seconds_def py_int_seconds_def utcnow_def
        timedelta_hours_def)
  show ?thesis
    using token_kind_is_checked [OF toy_codec_laws, of "[]" settings_py t0 "snd issued0" "''a2''"
        t0 s0 "''a1''" "''r1''" alice] h1 h2
    by (simp add: issued0_def)
qed

text \<open>
  C7. Blacklist noninterference: the results of \<open>verify_token\<close> and
  \<open>refresh_access_token\<close> do not depend on the blacklist. In two states with the same
  users whose stores differ only under keys of the form \<^verbatim>\<open>blacklist_token:{jti}\<close>, both
  return the same result on every token. No operation but \<open>logout_user\<close> writes under
  such a key: issuing, refreshing and the password-reset operations leave them as they
  were.
\<close>

theorem blacklist_noninterference:
  assumes "users s1 = users s2"
    and "\<forall>k. \<not> is_blacklist_key k \<longrightarrow> cache s1 k = cache s2 k"
  shows "verify_token_outcome c cfg s1 now token = verify_token_outcome c cfg s2 now token
       \<and> verify_token c cfg s1 now token = verify_token c cfg s2 now token
       \<and> fst (refresh_access_token_outcome c cfg s1 now jti token) =
           fst (refresh_access_token_outcome c cfg s2 now jti token)
       \<and> fst (refresh_access_token c cfg s1 now jti token) =
           fst (refresh_access_token c cfg s2 now jti token)
       \<and> (\<forall>k. is_blacklist_key k \<longrightarrow>
             cache (snd (generate_tokens c cfg s1 now ja jr u)) k = cache s1 k
           \<and> cache (snd (refresh_access_token c cfg s1 now jti token)) k = cache s1 k
           \<and> cache (snd (generate_password_reset_token c cfg s1 now jti u)) k = cache s1 k
           \<and> cache (snd (reset_user_password c cfg s1 now token pw)) k = cache s1 k)"
proof -
  have v: "verify_token_outcome c cfg s1 now token = verify_token_outcome c cfg s2 now token"
    by (simp only: verify_token_outcome_def assms(1))
  have r: "fst (refresh_access_token_outcome c cfg s1 now jti token) =
           fst (refresh_access_token_outcome c cfg s2 now jti token)"
    using assms by (rule refresh_outcome_noninterference)
  show ?thesis
    using v r
    by (simp add: verify_token_def fst_refresh blacklist_generate_tokens
        blacklist_generate_reset blacklist_reset_password)
qed

theorem blacklist_noninterference_witness:
  "verify_token toy_codec settings_py (snd issued0) t0 (access_token (fst issued0)) =
     verify_token toy_codec settings_py blacklisted0 t0 (access_token (fst issued0))
   \<and> fst (refresh_access_token toy_codec settings_py (snd issued0) t0 ''a2''
            (refresh_token (fst issued0))) =
     fst (refresh_access_token toy_codec settings_py blacklisted0 t0 ''a2''
            (refresh_token (fst issued0)))
   \<and> (\<exists>g. fst (refresh_access_token toy_codec settings_py blacklisted0 t0 ''a2''
            (refresh_token (fst issued0))) = Some g)
   \<and> cache (snd (generate_tokens toy_codec settings_py (snd issued0) t0 ''a2'' ''r2'' alice))
        ''blacklist_token:r1'' = cache (snd issued0) ''blacklist_token:r1''"
proof -
  have u: "users (snd issued0) = users blacklisted0"
    by (simp add: blacklisted0_def)
  have k: "\<forall>k. \<not> is_blacklist_key k \<longrightarrow> cache (snd issued0) k = cache blacklisted0 k"
    by (auto simp: blacklisted0_def cache_set_def is_blacklist_key_def)
  have b: "is_blacklist_key ''blacklist_token:r1''"
    by (simp add: is_blacklist_key_def)
  show ?thesis
    using blacklist_noninterference [OF u k, of toy_codec settings_py t0 _ "''a2''"
        "''a2''" "''r2''" alice] b refresh_issued0
    by (simp add: fst_refresh)
qed

text \<open>
  C6. For every subject id and every optional refresh-token string, \<open>logout_user\<close> reports
  success exactly when the store carries out the delete of the Stored Refresh Record.
  When the delete raises, logout reports failure and has changed nothing: a record that
  was there is still there. When the delete is carried out, no Stored Refresh Record is
  left for the subject, whether or not one was there, and nothing but that record and a
  blacklist key changes. When no token is given, or the token does not decode (malformed,
  expired, wrongly signed: the failure is swallowed), or its remaining lifetime is not
  positive, or the write of the blacklist marker raises (swallowed as well), nothing is
  blacklisted; otherwise the token's id is blacklisted for its remaining lifetime.
\<close>

theorem logout_succeeds_unless_delete_raises:
  "fst (logout_user c cfg f s now uid refresh) = (\<not> delete_raises f)
   \<and> users (snd (logout_user c cfg f s now uid refresh)) = users s
   \<and> (delete_raises f \<longrightarrow> snd (logout_user c cfg f s now uid refresh) = s)
   \<and> (\<not> delete_raises f \<longrightarrow>
         cache (snd (logout_user c cfg f s now uid refresh)) (''refresh_token:'' @ str_int uid)
           = None)
   \<and> (\<forall>k. k \<noteq> ''refresh_token:'' @ str_int uid \<and> \<not> is_blacklist_key k \<longrightarrow>
          cache (snd (logout_user c cfg f s now uid refresh)) k = cache s k)
   \<and> (\<not> delete_raises f \<and>
        (refresh = None \<or> refresh = Some [] \<or> set_raises f \<or>
         (\<exists>tok e. refresh = Some tok \<and> jwt_decode c tok (JWT_SECRET_KEY cfg) now = Inl e)) \<longrightarrow>
          snd (logout_user c cfg f s now uid refresh) =
            s\<lparr>cache := cache_delete (cache s) (''refresh_token:'' @ str_int uid)\<rparr>)
   \<and> (\<forall>tok p. \<not> delete_raises f
          \<and> refresh = Some tok \<and> jwt_decode c tok (JWT_SECRET_KEY cfg) now = Inr p
          \<and> (case claim_exp p of None \<Rightarrow> 0 | Some e \<Rightarrow> e) - py_int_seconds (utcnow cfg now) \<le> 0 \<longrightarrow>
          snd (logout_user c cfg f s now uid refresh) =
            s\<lparr>cache := cache_delete (cache s) (''refresh_token:'' @ str_int uid)\<rparr>)
   \<and> (\<forall>tok p jti. \<not> delete_raises f \<and> \<not> set_raises f
          \<and> refresh = Some tok \<and> tok \<noteq> []
          \<and> jwt_decode c tok (JWT_SECRET_KEY cfg) now = Inr p
          \<and> claim_jti p = Some jti \<and> jti \<noteq> []
          \<and> 0 < (case claim_exp p of None \<Rightarrow> 0 | Some e \<Rightarrow> e) - py_int_seconds (utcnow cfg now) \<longrightarrow>
          snd (logout_user c cfg f s now uid refresh) =
            s\<lparr>cache := cache_set (cache_delete (cache s) (''refresh_token:'' @ str_int uid)) now
                          (''blacklist_token:'' @ jti) (CBool True)
                          ((case claim_exp p of None \<Rightarrow> 0 | Some e \<Rightarrow> e)
                             - py_int_seconds (utcnow cfg now))\<rparr>)"
proof -
  let ?L = "logout_user c cfg f s now uid refresh"
  let ?key = "''refresh_token:'' @ str_int uid"
  have a: "fst ?L = (\<not> delete_raises f)"
    by (simp add: logout_user_def Let_def split: option.splits sum.splits)
  have b: "users (snd ?L) = users s"
    by (simp add: logout_user_def Let_def split: option.splits sum.splits)
  have b': "snd ?L = s" if "delete_raises f"
    using that by (simp add: logout_user_def Let_def)
  have c: "cache (snd ?L) ?key = None" if "\<not> delete_raises f"
    using that
    by (simp add: logout_user_def Let_def cache_delete_def cache_set_def
        split: option.splits sum.splits)
  have d: "cache (snd ?L) k = cache s k" if "k \<noteq> ?key" "\<not> is_blacklist_key k" for k
    using that
    by (auto simp: logout_user_def Let_def cache_delete_def cache_set_def is_blacklist_key_def
        split: option.splits sum.splits)
  have e: "snd ?L = s\<lparr>cache := cache_delete (cache s) ?key\<rparr>"
    if "\<not> delete_raises f"
       "refresh = None \<or> refresh = Some [] \<or> set_raises f \<or>
        (\<exists>tok e. refresh = Some tok \<and> jwt_decode c tok (JWT_SECRET_KEY cfg) now = Inl e)"
    using that by (auto simp: logout_user_def Let_def split: option.splits sum.splits)
  have f: "snd ?L = s\<lparr>cache := cache_delete (cache s) ?key\<rparr>"
    if "\<not> delete_raises f" "refresh = Some tok"
      "jwt_decode c tok (JWT_SECRET_KEY cfg) now = Inr p"
      "(case claim_exp p of None \<Rightarrow> 0 | Some e \<Rightarrow> e) - py_int_seconds (utcnow cfg now) \<le> 0"
    for tok p
    using that by (simp add: logout_user_def Let_def split: option.splits)
  have g: "snd ?L = s\<lparr>cache := cache_set (cache_delete (cache s) ?key) now
                          (''blacklist_token:'' @ jti) (CBool True)
                          ((case claim_exp p of None \<Rightarrow> 0 | Some e \<Rightarrow> e)
                             - py_int_seconds (utcnow cfg now))\<rparr>"
    if "\<not> delete_raises f" "\<not> set_raises f"
      "refresh = Some tok" "tok \<noteq> []" "jwt_decode c tok (JWT_SECRET_KEY cfg) now = Inr p"
      "claim_jti p = Some jti" "jti \<noteq> []"
      "0 < (case claim_exp p of None \<Rightarrow> 0 | Some e \<Rightarrow> e) - py_int_seconds (utcnow cfg now)"
    for tok p jti
    using that by (simp add: logout_user_def Let_def)
  show ?thesis
    using a b b' c d e f g by blast
qed

theorem logout_fails_when_delete_raises:
  "fst (logout_user toy_codec settings_py store_down (snd issued0) t0 1
          (Some (refresh_token (fst issued0)))) = False
   \<and> cache_get (cache (snd (logout_user toy_codec settings_py store_down (snd issued0) t0 1
          (Some (refresh_token (fst issued0)))))) t0 (''refresh_token:'' @ str_int 1)
       = Some (CStr (refresh_token (fst issued0)))
   \<and> fst (refresh_access_token toy_codec settings_py
            (snd (logout_user toy_codec settings_py store_down (snd issued0) t0 1
                    (Some (refresh_token (fst issued0)))))
            t0 ''a2'' (refresh_token (fst issued0))) \<noteq> None"
proof -
  have l: "logout_user toy_codec settings_py store_down (snd issued0) t0 1
             (Some (refresh_token (fst issued0))) = (False, snd issued0)"
    by (simp add: logout_user_def store_down_def)
  have k: "cache_get (cache (snd issued0)) t0 (''refresh_token:'' @ str_int 1)
             = Some (CStr (refresh_token (fst issued0)))"
    unfolding issued0_def cache_generate_tokens refresh_token_generate_tokens
    by (simp add: cache_get_def cache_set_def alice_def settings_py_def)
  have r: "fst (refresh_access_token toy_codec settings_py (snd issued0) t0 ''a2''
             (refresh_token (fst issued0))) \<noteq> None"
    using refresh_issued0 by (simp add: fst_refresh)
  show ?thesis
    unfolding l using k r by simp
qed

theorem logout_succeeds_unless_delete_raises_witness:
  "fst (logout_user toy_codec settings_py store_up (snd issued0) t0 1 (Some ''garbage'')) = True
   \<and> snd (logout_user toy_codec settings_py store_up (snd issued0) t0 1 (Some ''garbage'')) =
       (snd issued0)\<lparr>cache := cache_delete (cache (snd issued0)) (''refresh_token:'' @ str_int 1)\<rparr>
   \<and> snd (logout_user toy_codec settings_py store_up (snd issued0) t0 1
            (Some (jwt_encode toy_codec payload_no_exp (JWT_SECRET_KEY settings_py)))) =
       (snd issued0)\<lparr>cache := cache_delete (cache (snd issued0)) (''refresh_token:'' @ str_int 1)\<rparr>
   \<and> fst (logout_user toy_codec settings_py store_up (snd issued0) t0 1
            (Some (refresh_token (fst issued0)))) = True
   \<and> cache (snd (logout_user toy_codec settings_py store_up (snd issued0) t0 1
            (Some (refresh_token (fst issued0))))) (''refresh_token:'' @ str_int 1) = None
   \<and> cache (snd (logout_user toy_codec settings_py store_up (snd issued0) t0 1
            (Some (refresh_token (fst issued0))))) ''blacklist_token:r1''
       = Some (CBool True, t0 + 604800 * 1000000)
   \<and> fst (logout_user toy_codec settings_py store_lost (snd issued0) t0 1
            (Some (refresh_token (fst issued0)))) = True
   \<and> snd (logout_user toy_codec settings_py store_lost (snd issued0) t0 1
            (Some (refresh_token (fst issued0)))) =
       (snd issued0)\<lparr>cache := cache_delete (cache (snd issued0)) (''refresh_token:'' @ str_int 1)\<rparr>
   \<and> fst (logout_user toy_codec settings_py store_down (snd issued0) t0 1
            (Some (refresh_token (fst issued0)))) = False
   \<and> snd (logout_user toy_codec settings_py store_down (snd issued0) t0 1
            (Some (refresh_token (fst issued0)))) = snd issued0"
proof -
  let ?K = "JWT_SECRET_KEY settings_py"
  let ?R = "refresh_token (fst issued0)"
  have up: "\<not> delete_raises store_up" "\<not> set_raises store_up"
    by (simp_all add: store_up_def)
  have lost: "\<not> delete_raises store_lost" "set_raises store_lost"
    by (simp_all add: store_lost_def)
  have down: "delete_raises store_down"
    by (simp add: store_down_def)
  have g: "\<exists>tok e. Some ''garbage'' = Some tok \<and> jwt_decode toy_codec tok ?K t0 = Inl e"
    by (simp add: toy_codec_def toy_decode_def)
  have n: "jwt_decode toy_codec (jwt_encode toy_codec payload_no_exp ?K) ?K t0 = Inr payload_no_exp"
    using laws_roundtrip [OF toy_codec_laws, of payload_no_exp ?K t0]
    by (simp add: expired_def payload_no_exp_def)
  have n0: "(case claim_exp payload_no_exp of None \<Rightarrow> 0 | Some e \<Rightarrow> e)
              - py_int_seconds (utcnow settings_py t0) \<le> 0"
    by (simp add: payload_no_exp_def py_int_seconds_def utcnow_def settings_py_def t0_def)
  have r: "jwt_decode toy_codec ?R ?K t0 =
           Inr (token_payload settings_py t0 ''r1'' 1 REFRESH_TOKEN_TYPE
                  (timedelta_days (JWT_REFRESH_EXPIRATION_DAYS settings_py)))"
    unfolding issued0_def refresh_token_generate_tokens
    using decode_generated [OF toy_codec_laws, of settings_py t0 "''r1''" "pk alice"
        REFRESH_TOKEN_TYPE "timedelta_days (JWT_REFRESH_EXPIRATION_DAYS settings_py)" t0]
    by (simp add: alice_def settings_py_def t0_def now_seconds_def py_int_seconds_def
        utcnow_def timedelta_days_def)
  have rne: "?R \<noteq> []"
    unfolding issued0_def refresh_token_generate_tokens
    by (simp add: generate_token_def encode_nonempty [OF toy_codec_laws])
  have rj: "claim_jti (token_payload settings_py t0 ''r1'' 1 REFRESH_TOKEN_TYPE
              (timedelta_days (JWT_REFRESH_EXPIRATION_DAYS settings_py))) = Some ''r1''"
    by (simp add: token_payload_def Let_def)
  have rx: "(case claim_exp (token_payload settings_py t0 ''r1'' 1 REFRESH_TOKEN_TYPE
              (timedelta_days (JWT_REFRESH_EXPIRATION_DAYS settings_py))) of
               None \<Rightarrow> 0 | Some e \<Rightarrow> e) - py_int_seconds (utcnow settings_py t0) = 604800"
    by (simp add: token_payload_def Let_def settings_py_def t0_def py_int_seconds_def
        utcnow_def timedelta_days_def)
  note L1 = logout_succeeds_unless_delete_raises
      [of toy_codec settings_py store_up "snd issued0" t0 1 "Some ''garbage''"]
  note L2 = logout_succeeds_unless_delete_raises
      [of toy_codec settings_py store_up "snd issued0" t0 1
        "Some (jwt_encode toy_codec payload_no_exp ?K)"]
  note L3 = logout_succeeds_unless_delete_raises
      [of toy_codec settings_py store_up "snd issued0" t0 1 "Some ?R"]
  note L4 = logout_succeeds_unless_delete_raises
      [of toy_codec settings_py store_lost "snd issued0" t0 1 "Some ?R"]
  note L5 = logout_succeeds_unless_delete_raises
      [of toy_codec settings_py store_down "snd issued0" t0 1 "Some ?R"]
  note L1e = L1 [THEN conjunct2, THEN conjunct2, THEN conjunct2, THEN conjunct2, THEN conjunct2,
      THEN conjunct1, rule_format]
  note L2f = L2 [THEN conjunct2, THEN conjunct2, THEN conjunct2, THEN conjunct2, THEN conjunct2,
      THEN conjunct2, THEN conjunct1, rule_format,
      of "jwt_encode toy_codec payload_no_exp ?K" payload_no_exp]
  note L3c = L3 [THEN conjunct2, THEN conjunct2, THEN conjunct2, THEN conjunct1, rule_format]
  note L3g = L3 [THEN conjunct2, THEN conjunct2, THEN conjunct2, THEN conjunct2, THEN conjunct2,
      THEN conjunct2, THEN conjunct2, rule_format,
      of ?R "token_payload settings_py t0 ''r1'' 1 REFRESH_TOKEN_TYPE
                  (timedelta_days (JWT_REFRESH_EXPIRATION_DAYS settings_py))" "''r1''"]
  note L4e = L4 [THEN conjunct2, THEN conjunct2, THEN conjunct2, THEN conjunct2, THEN conjunct2,
      THEN conjunct1, rule_format]
  note L5b = L5 [THEN conjunct2, THEN conjunct2, THEN conjunct1, rule_format]
  have w1: "fst (logout_user toy_codec settings_py store_up (snd issued0) t0 1 (Some ''garbage'')) = True"
    using L1 [THEN conjunct1] up(1) by simp
  have w2: "snd (logout_user toy_codec settings_py store_up (snd issued0) t0 1 (Some ''garbage'')) =
       (snd issued0)\<lparr>cache := cache_delete (cache (snd issued0)) (''refresh_token:'' @ str_int 1)\<rparr>"
    by (rule L1e) (intro conjI up(1) disjI2 g)
  have w3: "snd (logout_user toy_codec settings_py store_up (snd issued0) t0 1
            (Some (jwt_encode toy_codec payload_no_exp ?K))) =
       (snd issued0)\<lparr>cache := cache_delete (cache (snd issued0)) (''refresh_token:'' @ str_int 1)\<rparr>"
    using n n0 by (intro L2f conjI refl up(1))
  have w4: "fst (logout_user toy_codec settings_py store_up (snd issued0) t0 1 (Some ?R)) = True"
    using L3 [THEN conjunct1] up(1) by simp
  have w5: "cache (snd (logout_user toy_codec settings_py store_up (snd issued0) t0 1 (Some ?R)))
              (''refresh_token:'' @ str_int 1) = None"
    by (rule L3c [OF up(1)])
  have pos: "0 < (case claim_exp (token_payload settings_py t0 ''r1'' 1 REFRESH_TOKEN_TYPE
              (timedelta_days (JWT_REFRESH_EXPIRATION_DAYS settings_py))) of
               None \<Rightarrow> 0 | Some e \<Rightarrow> e) - py_int_seconds (utcnow settings_py t0)"
    unfolding rx by simp
  have "snd (logout_user toy_codec settings_py store_up (snd issued0) t0 1 (Some ?R)) =
          (snd issued0)\<lparr>cache := cache_set (cache_delete (cache (snd issued0))
                (''refresh_token:'' @ str_int 1)) t0 (''blacklist_token:'' @ ''r1'') (CBool True)
                ((case claim_exp (token_payload settings_py t0 ''r1'' 1 REFRESH_TOKEN_TYPE
              (timedelta_days (JWT_REFRESH_EXPIRATION_DAYS settings_py))) of
               None \<Rightarrow> 0 | Some e \<Rightarrow> e) - py_int_seconds (utcnow settings_py t0))\<rparr>"
    using r rne rj pos by (intro L3g conjI refl up) simp_all
  then have w6: "cache (snd (logout_user toy_codec settings_py store_up (snd issued0) t0 1 (Some ?R)))
                  ''blacklist_token:r1'' = Some (CBool True, t0 + 604800 * 1000000)"
    unfolding rx by (simp add: cache_set_def)
  have w7: "fst (logout_user toy_codec settings_py store_lost (snd issued0) t0 1 (Some ?R)) = True"
    using L4 [THEN conjunct1] lost(1) by simp
  have w8: "snd (logout_user toy_codec settings_py store_lost (snd issued0) t0 1 (Some ?R)) =
       (snd issued0)\<lparr>cache := cache_delete (cache (snd issued0)) (''refresh_token:'' @ str_int 1)\<rparr>"
    by (rule L4e) (intro conjI lost(1) disjI2 disjI1 lost(2))
  have w9: "fst (logout_user toy_codec settings_py store_down (snd issued0) t0 1 (Some ?R)) = False"
    using L5 [THEN conjunct1] down by simp
  have w10: "snd (logout_user toy_codec settings_py store_down (snd issued0) t0 1 (Some ?R))
               = snd issued0"
    by (rule L5b [OF down])
  show ?thesis
    by (intro conjI w1 w2 w3 w4 w5 w6 w7 w8 w9 w10)
qed

text \<open>
  C5. Expiry boundary. The \<^verbatim>\<open>exp\<close> and \<^verbatim>\<open>iat\<close> of an issued token are whole seconds,
  truncated from the instants \<^verbatim>\<open>_generate_token\<close> computes. A token the service issued
  fails to decode, and \<open>verify_token\<close> fails, with \<open>Expired\<close> exactly when the current
  second has reached the \<^verbatim>\<open>exp\<close> it carries; while the current second is before that
  \<^verbatim>\<open>exp\<close>, decoding gives the claims back. An access token issued with a lifetime of 0
  seconds fails verification with \<open>Expired\<close> at once and ever after (for a process whose
  local time is not behind UTC, as with the repository's \<^verbatim>\<open>TIME_ZONE\<close>).
\<close>

theorem expiry_boundary:
  assumes "codec_laws c"
  shows "claim_exp (token_payload cfg now jti uid tt d) = Some (py_int_seconds (utcnow cfg now + d))
       \<and> claim_iat (token_payload cfg now jti uid tt d) = Some (py_int_seconds (utcnow cfg now))
       \<and> (0 \<le> x \<longrightarrow> py_int_seconds x * 1000000 \<le> x \<and> x < (py_int_seconds x + 1) * 1000000)
       \<and> (x < 0 \<longrightarrow> (py_int_seconds x - 1) * 1000000 < x \<and> x \<le> py_int_seconds x * 1000000)
       \<and> ((jwt_decode c (generate_token c cfg now jti uid tt d) (JWT_SECRET_KEY cfg) now'
              = Inl Expired)
            = (py_int_seconds (utcnow cfg now + d) \<le> now_seconds now'))
       \<and> ((verify_token_outcome c cfg s now' (generate_token c cfg now jti uid tt d) = Inl Expired)
            = (py_int_seconds (utcnow cfg now + d) \<le> now_seconds now'))
       \<and> (py_int_seconds (utcnow cfg now + d) \<le> now_seconds now' \<longrightarrow>
             verify_token c cfg s now' (generate_token c cfg now jti uid tt d) = None)
       \<and> (now_seconds now' < py_int_seconds (utcnow cfg now + d) \<longrightarrow>
             jwt_decode c (generate_token c cfg now jti uid tt d) (JWT_SECRET_KEY cfg) now'
               = Inr (token_payload cfg now jti uid tt d))
       \<and> (0 \<le> utc_offset cfg \<and> 0 \<le> now' \<and> now \<le> now' \<longrightarrow>
             verify_token_outcome c cfg s now'
               (generate_token c cfg now jti uid ACCESS_TOKEN_TYPE (timedelta_seconds 0))
               = Inl Expired
           \<and> verify_token c cfg s now'
               (generate_token c cfg now jti uid ACCESS_TOKEN_TYPE (timedelta_seconds 0)) = None)"
proof -
  let ?e = "py_int_seconds (utcnow cfg now + d)"
  have p1: "claim_exp (token_payload cfg now jti uid tt d) = Some ?e"
    by (simp add: token_payload_def Let_def)
  have p2: "claim_iat (token_payload cfg now jti uid tt d) = Some (py_int_seconds (utcnow cfg now))"
    by (simp add: token_payload_def Let_def)
  have p3: "0 \<le> x \<longrightarrow> py_int_seconds x * 1000000 \<le> x \<and> x < (py_int_seconds x + 1) * 1000000"
    using py_int_seconds_nonneg by blast
  have p4: "x < 0 \<longrightarrow> (py_int_seconds x - 1) * 1000000 < x \<and> x \<le> py_int_seconds x * 1000000"
    using py_int_seconds_neg by blast
  have p5: "(jwt_decode c (generate_token c cfg now jti uid tt d) (JWT_SECRET_KEY cfg) now'
              = Inl Expired) = (?e \<le> now_seconds now')"
    by (simp add: decode_generated [OF assms])
  have p6: "(verify_token_outcome c cfg s now' (generate_token c cfg now jti uid tt d) = Inl Expired)
            = (?e \<le> now_seconds now')"
    unfolding verify_expired_iff by (rule p5)
  have p7: "?e \<le> now_seconds now' \<longrightarrow>
             verify_token c cfg s now' (generate_token c cfg now jti uid tt d) = None"
  proof (intro impI)
    assume "?e \<le> now_seconds now'"
    then have "verify_token_outcome c cfg s now' (generate_token c cfg now jti uid tt d)
                 = Inl Expired"
      using p6 by simp
    then show "verify_token c cfg s now' (generate_token c cfg now jti uid tt d) = None"
      by (simp add: verify_token_def)
  qed
  have p8: "now_seconds now' < ?e \<longrightarrow>
             jwt_decode c (generate_token c cfg now jti uid tt d) (JWT_SECRET_KEY cfg) now'
               = Inr (token_payload cfg now jti uid tt d)"
    by (simp add: decode_generated [OF assms])
  have p9: "0 \<le> utc_offset cfg \<and> 0 \<le> now' \<and> now \<le> now' \<longrightarrow>
             verify_token_outcome c cfg s now'
               (generate_token c cfg now jti uid ACCESS_TOKEN_TYPE (timedelta_seconds 0))
               = Inl Expired
           \<and> verify_token c cfg s now'
               (generate_token c cfg now jti uid ACCESS_TOKEN_TYPE (timedelta_seconds 0)) = None"
  proof (intro impI)
    assume h: "0 \<le> utc_offset cfg \<and> 0 \<le> now' \<and> now \<le> now'"
    have "utcnow cfg now + timedelta_seconds 0 \<le> now'"
      using h by (simp add: utcnow_def timedelta_seconds_def)
    then have le: "py_int_seconds (utcnow cfg now + timedelta_seconds 0) \<le> now_seconds now'"
      using h by (intro py_int_seconds_le_now) simp_all
    have "jwt_decode c (generate_token c cfg now jti uid ACCESS_TOKEN_TYPE (timedelta_seconds 0))
            (JWT_SECRET_KEY cfg) now' = Inl Expired"
      using le by (simp add: decode_generated [OF assms])
    then show "verify_token_outcome c cfg s now'
               (generate_token c cfg now jti uid ACCESS_TOKEN_TYPE (timedelta_seconds 0))
               = Inl Expired
           \<and> verify_token c cfg s now'
               (generate_token c cfg now jti uid ACCESS_TOKEN_TYPE (timedelta_seconds 0)) = None"
      by (simp add: verify_token_def verify_token_outcome_def)
  qed
  show ?thesis
    using p1 p2 p3 p4 p5 p6 p7 p8 p9 by (intro conjI)
qed

theorem expiry_boundary_witness:
  "claim_exp (token_payload settings_utc (t0 + 999999) ''j'' 1 ACCESS_TOKEN_TYPE
       (timedelta_seconds 1)) = Some 1700000001
   \<and> claim_iat (token_payload settings_utc (t0 + 999999) ''j'' 1 ACCESS_TOKEN_TYPE
       (timedelta_seconds 1)) = Some 1700000000
   \<and> jwt_decode toy_codec
        (generate_token toy_codec settings_utc (t0 + 999999) ''j'' 1 ACCESS_TOKEN_TYPE
           (timedelta_seconds 1)) (JWT_SECRET_KEY settings_utc) (t0 + 999999)
       = Inr (token_payload settings_utc (t0 + 999999) ''j'' 1 ACCESS_TOKEN_TYPE
           (timedelta_seconds 1))
   \<and> jwt_decode toy_codec
        (generate_token toy_codec settings_utc (t0 + 999999) ''j'' 1 ACCESS_TOKEN_TYPE
           (timedelta_seconds 1)) (JWT_SECRET_KEY settings_utc) (t0 + 1000000)
       = Inl Expired
   \<and> verify_token_outcome toy_codec settings_utc s0 t0
        (generate_token toy_codec settings_utc t0 ''j'' 1 ACCESS_TOKEN_TYPE (timedelta_seconds 0))
       = Inl Expired
   \<and> verify_token toy_codec settings_py s0 t0
        (generate_token toy_codec settings_py t0 ''j'' 1 ACCESS_TOKEN_TYPE (timedelta_seconds 0))
       = None"
proof -
  note U = expiry_boundary [OF toy_codec_laws, of settings_utc "t0 + 999999" "''j''" 1
      ACCESS_TOKEN_TYPE "timedelta_seconds 1"]
  have e: "py_int_seconds (utcnow settings_utc (t0 + 999999) + timedelta_seconds 1) = 1700000001"
    by (simp add: py_int_seconds_def utcnow_def settings_utc_def settings_py_def t0_def
        timedelta_seconds_def)
  have i: "py_int_seconds (utcnow settings_utc (t0 + 999999)) = 1700000000"
    by (simp add: py_int_seconds_def utcnow_def settings_utc_def settings_py_def t0_def)
  have n1: "now_seconds (t0 + 999999) = 1700000000"
    by (simp add: now_seconds_def t0_def)
  have n2: "now_seconds (t0 + 1000000) = 1700000001"
    by (simp add: now_seconds_def t0_def)
  have w1: "claim_exp (token_payload settings_utc (t0 + 999999) ''j'' 1 ACCESS_TOKEN_TYPE
       (timedelta_seconds 1)) = Some 1700000001"
    using U [THEN conjunct1] unfolding e .
  have w2: "claim_iat (token_payload settings_utc (t0 + 999999) ''j'' 1 ACCESS_TOKEN_TYPE
       (timedelta_seconds 1)) = Some 1700000000"
    using U [THEN conjunct2, THEN conjunct1] unfolding i .
  have w3: "jwt_decode toy_codec
        (generate_token toy_codec settings_utc (t0 + 999999) ''j'' 1 ACCESS_TOKEN_TYPE
           (timedelta_seconds 1)) (JWT_SECRET_KEY settings_utc) (t0 + 999999)
       = Inr (token_payload settings_utc (t0 + 999999) ''j'' 1 ACCESS_TOKEN_TYPE
           (timedelta_seconds 1))"
    by (rule expiry_boundary [OF toy_codec_laws, of settings_utc "t0 + 999999" "''j''" 1
          ACCESS_TOKEN_TYPE "timedelta_seconds 1" _ "t0 + 999999",
          THEN conjunct2, THEN conjunct2, THEN conjunct2, THEN conjunct2, THEN conjunct2,
          THEN conjunct2, THEN conjunct2, THEN conjunct1, THEN mp])
       (simp add: e n1)
  have w4: "jwt_decode toy_codec
        (generate_token toy_codec settings_utc (t0 + 999999) ''j'' 1 ACCESS_TOKEN_TYPE
           (timedelta_seconds 1)) (JWT_SECRET_KEY settings_utc) (t0 + 1000000)
       = Inl Expired"
    unfolding expiry_boundary [OF toy_codec_laws, of settings_utc "t0 + 999999" "''j''" 1
          ACCESS_TOKEN_TYPE "timedelta_seconds 1" _ "t0 + 1000000",
          THEN conjunct2, THEN conjunct2, THEN conjunct2, THEN conjunct2, THEN conjunct1]
    by (simp add: e n2)
  have w5: "verify_token_outcome toy_codec settings_utc s0 t0
        (generate_token toy_codec settings_utc t0 ''j'' 1 ACCESS_TOKEN_TYPE (timedelta_seconds 0))
       = Inl Expired"
    by (rule expiry_boundary [OF toy_codec_laws, of settings_utc t0 "''j''" 1 _ _ _ t0 s0,
          THEN conjunct2, THEN conjunct2, THEN conjunct2, THEN conjunct2, THEN conjunct2,
          THEN conjunct2, THEN conjunct2, THEN conjunct2, THEN mp, THEN conjunct1])
       (simp add: settings_utc_def settings_py_def t0_def)
  have w6: "verify_token toy_codec settings_py s0 t0
        (generate_token toy_codec settings_py t0 ''j'' 1 ACCESS_TOKEN_TYPE (timedelta_seconds 0))
       = None"
    by (rule expiry_boundary [OF toy_codec_laws, of settings_py t0 "''j''" 1 _ _ _ t0 s0,
          THEN conjunct2, THEN conjunct2, THEN conjunct2, THEN conjunct2, THEN conjunct2,
          THEN conjunct2, THEN conjunct2, THEN conjunct2, THEN mp, THEN conjunct2])
       (simp add: settings_py_def t0_def)
  show ?thesis
    by (intro conjI w1 w2 w3 w4 w5 w6)
qed

text \<open>
  C1. What the code does with a password-reset token that is used twice. The first
  \<open>reset_user_password\<close> with the token issued to an undeleted user succeeds: the
  password is the new one and the Password-Reset Record is gone. A second
  \<open>reset_user_password\<close> with the same token, while the token has not expired, succeeds
  again and sets the password a second time: \<open>verify_password_reset_token\<close> never reads
  the record, so deleting it does not retire the token.
\<close>

theorem reset_token_is_honoured_again:
  assumes "codec_laws c"
    and "u \<in> set (users s)" and "is_deleted u = False" and "pk u \<noteq> 0"
    and "now1 \<le> now2"
    and "now_seconds now2 < py_int_seconds (utcnow cfg now + timedelta_hours 12)"
  shows "fst (reset_user_password c cfg (snd (generate_password_reset_token c cfg s now jti u))
                now1 (fst (generate_password_reset_token c cfg s now jti u)) pw1) = True
       \<and> cache (snd (reset_user_password c cfg
                        (snd (generate_password_reset_token c cfg s now jti u))
                        now1 (fst (generate_password_reset_token c cfg s now jti u)) pw1))
               (''password_reset:'' @ str_int (pk u)) = None
       \<and> (\<exists>v. objects_get_undeleted
                 (users (snd (reset_user_password c cfg
                        (snd (generate_password_reset_token c cfg s now jti u))
                        now1 (fst (generate_password_reset_token c cfg s now jti u)) pw1)))
                 (pk u) = Some v \<and> password v = pw1)
       \<and> fst (reset_user_password c cfg
                (snd (reset_user_password c cfg
                        (snd (generate_password_reset_token c cfg s now jti u))
                        now1 (fst (generate_password_reset_token c cfg s now jti u)) pw1))
                now2 (fst (generate_password_reset_token c cfg s now jti u)) pw2) = True
       \<and> (\<exists>v. objects_get_undeleted
                 (users (snd (reset_user_password c cfg
                   (snd (reset_user_password c cfg
                        (snd (generate_password_reset_token c cfg s now jti u))
                        now1 (fst (generate_password_reset_token c cfg s now jti u)) pw1))
                   now2 (fst (generate_password_reset_token c cfg s now jti u)) pw2)))
                 (pk u) = Some v \<and> password v = pw2)"
proof -
  let ?tok = "generate_token c cfg now jti (pk u) ''reset'' (timedelta_hours 12)"
  let ?key = "''password_reset:'' @ str_int (pk u)"
  let ?G = "generate_password_reset_token c cfg s now jti u"
  have tok: "fst ?G = ?tok"
    by (simp add: generate_password_reset_token_def Let_def)
  have us: "users (snd ?G) = users s"
    by (simp add: generate_password_reset_token_def Let_def)
  obtain v0 where v0: "objects_get_undeleted (users s) (pk u) = Some v0"
    using get_undeleted_member [OF assms(2,3)] by blast
  have pk0: "pk v0 = pk u"
    by (rule get_undeleted_pk [OF v0])
  have live1: "now_seconds now1 < py_int_seconds (utcnow cfg now + timedelta_hours 12)"
    using now_seconds_mono [OF assms(5)] assms(6) by simp
  define s1 where
    "s1 = \<lparr>users = save_password (users s) (v0\<lparr>password := pw1\<rparr>),
           cache = cache_delete (cache (snd ?G)) ?key\<rparr>"
  have r1: "reset_user_password c cfg (snd ?G) now1 (fst ?G) pw1 = (True, s1)"
    unfolding tok s1_def
    using reset_with_generated [OF assms(1) _ assms(4) live1, of "snd ?G" v0 jti pw1] v0 us
    by simp
  have g1: "objects_get_undeleted (users s1) (pk u) = Some (v0\<lparr>password := pw1\<rparr>)"
    by (simp add: s1_def get_undeleted_save_password v0 pk0)
  define s2 where
    "s2 = \<lparr>users = save_password (users s1) (v0\<lparr>password := pw1, password := pw2\<rparr>),
           cache = cache_delete (cache s1) ?key\<rparr>"
  have r2: "reset_user_password c cfg s1 now2 (fst ?G) pw2 = (True, s2)"
    unfolding tok s2_def
    using reset_with_generated [OF assms(1) g1 assms(4) assms(6), of jti pw2]
    by simp
  have g2: "objects_get_undeleted (users s2) (pk u) = Some (v0\<lparr>password := pw2\<rparr>)"
    by (simp add: s2_def get_undeleted_save_password g1 pk0)
  have c1: "cache s1 ?key = None"
    by (simp add: s1_def cache_delete_def)
  show ?thesis
    unfolding r1 fst_conv snd_conv r2
    using c1 g1 g2 by simp
qed

theorem reset_token_is_honoured_again_witness:
  "fst (reset_user_password toy_codec settings_py (snd reset0) (t0 + 60000000) (fst reset0)
          ''newpass'') = True
   \<and> cache (snd (reset_user_password toy_codec settings_py (snd reset0) (t0 + 60000000)
          (fst reset0) ''newpass'')) (''password_reset:'' @ str_int 1) = None
   \<and> fst (reset_user_password toy_codec settings_py
            (snd (reset_user_password toy_codec settings_py (snd reset0) (t0 + 60000000)
                    (fst reset0) ''newpass''))
            (t0 + 3600000000) (fst reset0) ''other'') = True
   \<and> (\<exists>v. objects_get_undeleted
             (users (snd (reset_user_password toy_codec settings_py
                (snd (reset_user_password toy_codec settings_py (snd reset0) (t0 + 60000000)
                        (fst reset0) ''newpass''))
                (t0 + 3600000000) (fst reset0) ''other''))) 1 = Some v
          \<and> password v = ''other'')"
proof -
  have m: "alice \<in> set (users s0)"
    by (simp add: s0_def)
  have d: "is_deleted alice = False"
    by (simp add: alice_def)
  have nz: "pk alice \<noteq> 0"
    by (simp add: alice_def)
  have le: "t0 + 60000000 \<le> t0 + 3600000000"
    by simp
  have live: "now_seconds (t0 + 3600000000)
                < py_int_seconds (utcnow settings_py t0 + timedelta_hours 12)"
    by (simp add: now_seconds_def py_int_seconds_def utcnow_def settings_py_def t0_def
        timedelta_hours_def)
  have pk1: "pk alice = 1"
    by (simp add: alice_def)
  note T = reset_token_is_honoured_again [OF toy_codec_laws m d nz le live,
      of "''p1''" "''newpass''" "''other''", folded reset0_def, unfolded pk1]
  show ?thesis
    by (intro conjI T [THEN conjunct1] T [THEN conjunct2, THEN conjunct1]
        T [THEN conjunct2, THEN conjunct2, THEN conjunct2, THEN conjunct1]
        T [THEN conjunct2, THEN conjunct2, THEN conjunct2, THEN conjunct2])
qed

text \<open>
  C3. Issue/verify round trip, as the code has it. An access token verifies to the id of
  the active user it was issued to, and a token made for subject 42 decodes to subject 42
  and kind \<^verbatim>\<open>access\<close>, as long as the current second is before the \<^verbatim>\<open>exp\<close> the token
  carries. That \<^verbatim>\<open>exp\<close> is computed from \<^verbatim>\<open>datetime.utcnow().timestamp()\<close>, which is
  behind the true time by the UTC offset of the process: in a process at least one hour
  ahead of UTC, a token made with a lifetime of 3600 seconds is \<open>Expired\<close> from the moment
  it is made, and when the configured lifetime of access tokens does not exceed the
  offset, the access token that \<open>generate_tokens\<close> issues never verifies.
\<close>

theorem issued_token_verifies_only_beyond_utc_offset:
  assumes "codec_laws c"
  shows "(u \<in> set (users s) \<and> is_deleted u = False \<and> status u = ''active'' \<and> pk u \<noteq> 0
          \<and> now_seconds now' <
              py_int_seconds (utcnow cfg now + timedelta_hours (JWT_EXPIRATION_HOURS cfg)) \<longrightarrow>
            verify_token c cfg (snd (generate_tokens c cfg s now ja jr u)) now'
              (access_token (fst (generate_tokens c cfg s now ja jr u))) = Some (pk u))
       \<and> (now_seconds now' < py_int_seconds (utcnow cfg now + d) \<longrightarrow>
            (\<exists>p. jwt_decode c (generate_token c cfg now jti 42 ACCESS_TOKEN_TYPE d)
                    (JWT_SECRET_KEY cfg) now' = Inr p
                 \<and> claim_user_id p = Some (JInt 42)
                 \<and> claim_token_type p = Some ACCESS_TOKEN_TYPE))
       \<and> (3600 \<le> utc_offset cfg \<and> 0 \<le> now' \<and> now \<le> now' \<longrightarrow>
            jwt_decode c (generate_token c cfg now jti 42 ACCESS_TOKEN_TYPE (timedelta_seconds 3600))
              (JWT_SECRET_KEY cfg) now' = Inl Expired)
       \<and> (JWT_EXPIRATION_HOURS cfg * 3600 \<le> utc_offset cfg \<and> 0 \<le> now' \<and> now \<le> now' \<longrightarrow>
            verify_token c cfg (snd (generate_tokens c cfg s now ja jr u)) now'
              (access_token (fst (generate_tokens c cfg s now ja jr u))) = None)"
proof -
  have p1: "u \<in> set (users s) \<and> is_deleted u = False \<and> status u = ''active'' \<and> pk u \<noteq> 0
          \<and> now_seconds now' <
              py_int_seconds (utcnow cfg now + timedelta_hours (JWT_EXPIRATION_HOURS cfg)) \<longrightarrow>
            verify_token c cfg (snd (generate_tokens c cfg s now ja jr u)) now'
              (access_token (fst (generate_tokens c cfg s now ja jr u))) = Some (pk u)"
  proof (intro impI)
    assume h: "u \<in> set (users s) \<and> is_deleted u = False \<and> status u = ''active'' \<and> pk u \<noteq> 0
          \<and> now_seconds now' <
              py_int_seconds (utcnow cfg now + timedelta_hours (JWT_EXPIRATION_HOURS cfg))"
    then obtain v where v: "objects_get_active (users s) (pk u) = Some v"
      using get_active_member [of u "users s"] by blast
    have v': "objects_get_active (users (snd (generate_tokens c cfg s now ja jr u))) (pk u) = Some v"
      using v by simp
    have "verify_token_outcome c cfg (snd (generate_tokens c cfg s now ja jr u)) now'
            (generate_token c cfg now ja (pk u) ACCESS_TOKEN_TYPE
               (timedelta_hours (JWT_EXPIRATION_HOURS cfg))) = Inr (pk u)"
      using h by (intro verify_generated_access [OF assms v']) simp_all
    then show "verify_token c cfg (snd (generate_tokens c cfg s now ja jr u)) now'
              (access_token (fst (generate_tokens c cfg s now ja jr u))) = Some (pk u)"
      by (simp add: verify_token_def access_token_generate_tokens)
  qed
  have p2: "now_seconds now' < py_int_seconds (utcnow cfg now + d) \<longrightarrow>
            (\<exists>p. jwt_decode c (generate_token c cfg now jti 42 ACCESS_TOKEN_TYPE d)
                    (JWT_SECRET_KEY cfg) now' = Inr p
                 \<and> claim_user_id p = Some (JInt 42)
                 \<and> claim_token_type p = Some ACCESS_TOKEN_TYPE)"
    by (simp add: decode_generated [OF assms] token_payload_def Let_def)
  have ex: "jwt_decode c (generate_token c cfg now j i ACCESS_TOKEN_TYPE dd)
              (JWT_SECRET_KEY cfg) now' = Inl Expired"
    if "dd \<le> utc_offset cfg * 1000000" "0 \<le> now'" "now \<le> now'" for j i dd
  proof -
    have "utcnow cfg now + dd \<le> now'"
      using that by (simp add: utcnow_def)
    then have "py_int_seconds (utcnow cfg now + dd) \<le> now_seconds now'"
      using that(2) by (rule py_int_seconds_le_now)
    then show ?thesis
      by (simp add: decode_generated [OF assms])
  qed
  have p3: "3600 \<le> utc_offset cfg \<and> 0 \<le> now' \<and> now \<le> now' \<longrightarrow>
            jwt_decode c (generate_token c cfg now jti 42 ACCESS_TOKEN_TYPE (timedelta_seconds 3600))
              (JWT_SECRET_KEY cfg) now' = Inl Expired"
    by (intro impI ex) (simp_all add: timedelta_seconds_def)
  have p4: "JWT_EXPIRATION_HOURS cfg * 3600 \<le> utc_offset cfg \<and> 0 \<le> now' \<and> now \<le> now' \<longrightarrow>
            verify_token c cfg (snd (generate_tokens c cfg s now ja jr u)) now'
              (access_token (fst (generate_tokens c cfg s now ja jr u))) = None"
  proof (intro impI)
    assume h: "JWT_EXPIRATION_HOURS cfg * 3600 \<le> utc_offset cfg \<and> 0 \<le> now' \<and> now \<le> now'"
    have "jwt_decode c (generate_token c cfg now ja (pk u) ACCESS_TOKEN_TYPE
              (timedelta_hours (JWT_EXPIRATION_HOURS cfg))) (JWT_SECRET_KEY cfg) now' = Inl Expired"
      using h by (intro ex) (simp_all add: timedelta_hours_def)
    then show "verify_token c cfg (snd (generate_tokens c cfg s now ja jr u)) now'
              (access_token (fst (generate_tokens c cfg s now ja jr u))) = None"
      by (simp add: verify_token_def verify_token_outcome_def access_token_generate_tokens)
  qed
  show ?thesis
    by (intro conjI p1 p2 p3 p4)
qed

theorem issued_token_verifies_only_beyond_utc_offset_witness:
  "verify_token toy_codec settings_py (snd issued0) t0 (access_token (fst issued0)) = Some 1
   \<and> (\<exists>p. jwt_decode toy_codec
            (generate_token toy_codec settings_utc t0 ''j'' 42 ACCESS_TOKEN_TYPE
               (timedelta_seconds 3600)) (JWT_SECRET_KEY settings_utc) t0 = Inr p
         \<and> claim_user_id p = Some (JInt 42) \<and> claim_token_type p = Some ACCESS_TOKEN_TYPE)
   \<and> jwt_decode toy_codec
        (generate_token toy_codec settings_py t0 ''j'' 42 ACCESS_TOKEN_TYPE
           (timedelta_seconds 3600)) (JWT_SECRET_KEY settings_py) t0 = Inl Expired
   \<and> verify_token toy_codec settings_8h
        (snd (generate_tokens toy_codec settings_8h s0 t0 ''a1'' ''r1'' alice)) t0
        (access_token (fst (generate_tokens toy_codec settings_8h s0 t0 ''a1'' ''r1'' alice)))
       = None"
proof -
  have h1: "alice \<in> set (users s0) \<and> is_deleted alice = False \<and> status alice = ''active''
          \<and> pk alice \<noteq> 0
          \<and> now_seconds t0 <
              py_int_seconds (utcnow settings_py t0
                + timedelta_hours (JWT_EXPIRATION_HOURS settings_py))"
    by (simp add: s0_def alice_def now_seconds_def py_int_seconds_def utcnow_def settings_py_def
        t0_def timedelta_hours_def)
  have pk1: "pk alice = 1"
    by (simp add: alice_def)
  have h2: "now_seconds t0 < py_int_seconds (utcnow settings_utc t0 + timedelta_seconds 3600)"
    by (simp add: now_seconds_def py_int_seconds_def utcnow_def settings_utc_def settings_py_def
        t0_def timedelta_seconds_def)
  have h3: "3600 \<le> utc_offset settings_py \<and> 0 \<le> t0 \<and> t0 \<le> t0"
    by (simp add: settings_py_def t0_def)
  have h4: "JWT_EXPIRATION_HOURS settings_8h * 3600 \<le> utc_offset settings_8h \<and> 0 \<le> t0 \<and> t0 \<le> t0"
    by (simp add: settings_8h_def settings_py_def t0_def)
  note A = issued_token_verifies_only_beyond_utc_offset [OF toy_codec_laws,
      of alice s0 t0 settings_py t0 "''a1''" "''r1''", THEN conjunct1, THEN mp, OF h1,
      folded issued0_def, unfolded pk1]
  note B = issued_token_verifies_only_beyond_utc_offset [OF toy_codec_laws,
      of _ _ t0 settings_utc t0 _ _ "timedelta_seconds 3600" "''j''",
      THEN conjunct2, THEN conjunct1, THEN mp, OF h2]
  note C = issued_token_verifies_only_beyond_utc_offset [OF toy_codec_laws,
      of _ _ t0 settings_py t0 _ _ _ "''j''",
      THEN conjunct2, THEN conjunct2, THEN conjunct1, THEN mp, OF h3]
  note D = issued_token_verifies_only_beyond_utc_offset [OF toy_codec_laws,
      of alice s0 t0 settings_8h t0 "''a1''" "''r1''",
      THEN conjunct2, THEN conjunct2, THEN conjunct2, THEN mp, OF h4]
  show ?thesis
    by (intro conjI A B C D)
qed

end
